theory Spec2Isabelle
  imports Main
begin

section \<open>Data model\<close>

text \<open>
  JSON values as \<^verbatim>\<open>JSON.parse\<close> returns them and \<^verbatim>\<open>JSON.stringify\<close> takes them.
  \<open>JObj\<close> holds the own properties of an object; a property is looked up with \<open>map_of\<close>.
\<close>

datatype json =
    JNull
  | JBool bool
  | JNum int
  | JStr string
  | JArr "json list"
  | JObj "(string \<times> json) list"

text \<open>JavaScript truthiness of a JSON value, as \<^verbatim>\<open>!messages\<close> tests it.\<close>

fun truthy :: "json \<Rightarrow> bool" where
  "truthy JNull = False"
| "truthy (JBool b) = b"
| "truthy (JNum n) = (n \<noteq> 0)"
| "truthy (JStr s) = (s \<noteq> [])"
| "truthy (JArr xs) = True"
| "truthy (JObj kvs) = True"

text \<open>
  \<^verbatim>\<open>OpenAIStreamChunk\<close>, as far as the routes read it:
  \<^verbatim>\<open>chunk.choices[0]?.delta?.content\<close>. An absent \<open>delta\<close> or \<open>content\<close> is \<open>None\<close>.
\<close>

datatype delta = Delta (content: "string option")

datatype choice = Choice (delta: "delta option")

datatype OpenAIStreamChunk = OpenAIStreamChunk (choices: "choice list")

text \<open>\<^verbatim>\<open>(chunk as OpenAIStreamChunk).choices[0]?.delta?.content || ''\<close>\<close>

definition chunk_content :: "OpenAIStreamChunk \<Rightarrow> string" where
  "chunk_content chunk =
     (case choices chunk of
        [] \<Rightarrow> []
      | c # _ \<Rightarrow>
          (case delta c of
             None \<Rightarrow> []
           | Some d \<Rightarrow> (case content d of None \<Rightarrow> [] | Some s \<Rightarrow> s)))"

text \<open>
  One issue of a \<^verbatim>\<open>ZodError\<close>: its path (each element already as text) and message.
\<close>

record zod_issue =
  path :: "string list"
  issue_message :: string

text \<open>
  Values that the collaborators throw, told apart as the two \<^verbatim>\<open>catch\<close> blocks do:
  \<^verbatim>\<open>instanceof ZodError\<close> (fields \<^verbatim>\<open>errors\<close> and \<^verbatim>\<open>message\<close>),
  \<^verbatim>\<open>instanceof AuthorizationError\<close> (a subclass of \<^verbatim>\<open>Error\<close>), any other
  \<^verbatim>\<open>instanceof Error\<close>, and values that are no \<^verbatim>\<open>Error\<close>: \<open>NonError m\<close> is a thrown
  string, number or plain object, \<open>m\<close> its \<^verbatim>\<open>message\<close> property when it has one,
  and \<open>Nullish\<close> is a thrown \<^verbatim>\<open>null\<close> or \<^verbatim>\<open>undefined\<close>.
\<close>

datatype js_error =
    ZodError "zod_issue list" string
  | AuthorizationError string
  | JsError string
  | NonError "string option"
  | Nullish

text \<open>\<^verbatim>\<open>error instanceof Error ? error.message : fallback\<close>\<close>

fun message_or :: "string \<Rightarrow> js_error \<Rightarrow> string" where
  "message_or fallback (ZodError errors m) = m"
| "message_or fallback (AuthorizationError m) = m"
| "message_or fallback (JsError m) = m"
| "message_or fallback (NonError m) = fallback"
| "message_or fallback Nullish = fallback"

text \<open>The decoded token payload \<^verbatim>\<open>{ userId, email }\<close>; a missing field is \<open>None\<close>.\<close>

record jwt_payload =
  userId :: "string option"
  email :: "string option"

text \<open>The value \<^verbatim>\<open>validate(chatRequestSchema, body)\<close> returns: both fields may be absent.\<close>

record chat_data =
  messages :: "json list option"
  stream :: "bool option"

text \<open>
  The upstream generator \<^verbatim>\<open>llmService.chat(userId, messages, true)\<close> resolves to: the
  chunks it yields, in order, and the value it throws after them, if it fails. The sequence is
  finite (section 6 of the specification).
\<close>

type_synonym generator = "OpenAIStreamChunk list \<times> js_error option"

text \<open>
  The collaborators of the routes, none of them defined in the routes file: the token
  verifier of the JWT plugin, \<^verbatim>\<open>validate(chatRequestSchema, _)\<close>, the two modes of
  \<^verbatim>\<open>llmService.chat\<close>, and the configuration read for the CORS header. \<open>Inl\<close> is a throw.
\<close>

record env =
  jwt_verify :: "string \<Rightarrow> js_error + jwt_payload"
  validate :: "json \<Rightarrow> js_error + chat_data"
  chat_stream :: "string \<Rightarrow> json \<Rightarrow> js_error + generator"
  chat_text :: "string \<Rightarrow> json \<Rightarrow> js_error + string"
  NODE_ENV :: "string option"
  FRONTEND_URL :: string

text \<open>
  What a handler does, in order: log lines, the response helpers of \<^verbatim>\<open>utils/response\<close>,
  the raw writes of the push stream, the calls on the upstream (\<open>LlmChat\<close> is
  \<^verbatim>\<open>llmService.chat(userId, messages, stream)\<close>, \<open>GenNext\<close> one pull of the
  \<^verbatim>\<open>for await\<close> loop), and the calls on the socket. These calls are recorded as
  issued; the loggers, the response helpers and the writes on the response and on the socket
  return without throwing.
\<close>

datatype sse_payload =
    SseData json
  | SseDone

datatype action =
    LogWarn string
  | LogDebug string
  | LogError string
  | ConsoleLog string
  | UnauthorizedResponse "string option"
  | SuccessResponse json
  | ErrorResponse string nat
  | WriteHead nat "(string \<times> string) list"
  | RawWrite sse_payload
  | RawEnd
  | LlmChat string json bool
  | GenNext
  | WsSend json
  | WsClose nat string

section \<open>POST /api/chat\<close>

text \<open>
  The request as the route reads it: the bearer credential of the \<^verbatim>\<open>Authorization\<close>
  header, the \<^verbatim>\<open>Origin\<close> header and the body.
\<close>

record post_request =
  authorization :: "string option"
  origin :: "string option"
  body :: json

text \<open>
  Modelled from the spec: \<^verbatim>\<open>request.jwtVerify()\<close> of the JWT plugin, which is registered
  outside the sources. Section 4.1: the two entry points differ only in where they find the
  credential, not in how it is checked. The plugin takes the credential from the header and
  checks it with its verifier, the one \<^verbatim>\<open>fastify.jwt.verify\<close> calls; the result becomes
  \<^verbatim>\<open>request.user\<close>.
\<close>

definition request_jwtVerify :: "env \<Rightarrow> post_request \<Rightarrow> js_error + jwt_payload" where
  "request_jwtVerify e req =
     (case authorization req of
        None \<Rightarrow> Inl (JsError ''No Authorization was found in request.headers'')
      | Some credential \<Rightarrow> jwt_verify e credential)"

text \<open>
  The \<^verbatim>\<open>authenticate\<close> pre-handler. When it has sent the 401 the handler does not run:
  the second component is \<^verbatim>\<open>request.user\<close> for the handler, \<open>None\<close> when the reply is sent.
\<close>

definition authenticate :: "env \<Rightarrow> post_request \<Rightarrow> action list \<times> jwt_payload option" where
  "authenticate e req =
     (case request_jwtVerify e req of
        Inl err \<Rightarrow> ([UnauthorizedResponse (Some ''Invalid or expired token'')], None)
      | Inr user \<Rightarrow> ([], Some user))"

text \<open>\<^verbatim>\<open>xs.join(sep)\<close>\<close>

fun join :: "string \<Rightarrow> string list \<Rightarrow> string" where
  "join sep [] = []"
| "join sep [x] = x"
| "join sep (x # y # ys) = x @ sep @ join sep (y # ys)"

text \<open>\<^verbatim>\<open>error.errors.map(e => `${e.path.join('.')}: ${e.message}`).join(', ')\<close>\<close>

definition zod_message :: "zod_issue list \<Rightarrow> string" where
  "zod_message errors =
     join '', '' (map (\<lambda>i. join ''.'' (path i) @ '': '' @ issue_message i) errors)"

text \<open>The headers of the event stream, with the CORS origin the route computes.\<close>

definition allowedOrigin :: "env \<Rightarrow> post_request \<Rightarrow> string" where
  "allowedOrigin e req =
     (if NODE_ENV e = Some ''development''
      then (case origin req of None \<Rightarrow> ''*'' | Some orig \<Rightarrow> if orig = [] then ''*'' else orig)
      else (case origin req of
              None \<Rightarrow> FRONTEND_URL e
            | Some orig \<Rightarrow> if orig = FRONTEND_URL e then orig else FRONTEND_URL e))"

definition sse_headers :: "env \<Rightarrow> post_request \<Rightarrow> (string \<times> string) list" where
  "sse_headers e req =
     [(''Content-Type'', ''text/event-stream''),
      (''Cache-Control'', ''no-cache''),
      (''Connection'', ''keep-alive''),
      (''Access-Control-Allow-Origin'', allowedOrigin e req),
      (''Access-Control-Allow-Credentials'', ''true''),
      (''Access-Control-Allow-Methods'', ''GET, POST, OPTIONS''),
      (''Access-Control-Allow-Headers'', ''Content-Type, Authorization'')]"

text \<open>
  The \<^verbatim>\<open>for await\<close> loop of the push stream over the chunks the generator yields: one
  pull for each chunk, one write for each chunk whose content is not empty, and the last
  pull, which finds the generator finished or failed. The loop has no other exit.
\<close>

fun sse_relay :: "OpenAIStreamChunk list \<Rightarrow> action list" where
  "sse_relay [] = [GenNext]"
| "sse_relay (chunk # rest) =
     GenNext #
     (if chunk_content chunk \<noteq> []
      then [RawWrite (SseData (JObj [(''content'', JStr (chunk_content chunk))]))]
      else []) @
     sse_relay rest"

text \<open>
  The streaming branch: headers, then the generator is acquired and relayed, then the
  \<^verbatim>\<open>[DONE]\<close> event and the end of the response. The second component is the value
  thrown, if any, by \<^verbatim>\<open>llmService.chat\<close> or by the generator.
\<close>

definition post_stream ::
  "env \<Rightarrow> post_request \<Rightarrow> string \<Rightarrow> json list \<Rightarrow> action list \<times> js_error option" where
  "post_stream e req uid msgs =
     (case chat_stream e uid (JArr msgs) of
        Inl err \<Rightarrow>
          ([WriteHead 200 (sse_headers e req), LlmChat uid (JArr msgs) True], Some err)
      | Inr (chunks, failure) \<Rightarrow>
          (case failure of
             Some err \<Rightarrow>
               ([WriteHead 200 (sse_headers e req), LlmChat uid (JArr msgs) True] @
                sse_relay chunks, Some err)
           | None \<Rightarrow>
               ([WriteHead 200 (sse_headers e req), LlmChat uid (JArr msgs) True] @
                sse_relay chunks @ [RawWrite SseDone, RawEnd], None)))"

text \<open>The regular branch: one call of \<^verbatim>\<open>llmService.chat\<close>, one structured response.\<close>

definition post_plain :: "env \<Rightarrow> string \<Rightarrow> json list \<Rightarrow> action list \<times> js_error option" where
  "post_plain e uid msgs =
     (case chat_text e uid (JArr msgs) of
        Inl err \<Rightarrow> ([LlmChat uid (JArr msgs) False], Some err)
      | Inr response \<Rightarrow>
          ([LlmChat uid (JArr msgs) False,
            SuccessResponse
              (JObj [(''message'',
                      JObj [(''role'', JStr ''assistant''), (''content'', JStr response)])])],
           None))"

text \<open>\<^verbatim>\<open>const { messages = [], stream = false } = data\<close>\<close>

definition requested_messages :: "chat_data \<Rightarrow> json list" where
  "requested_messages data = (case messages data of None \<Rightarrow> [] | Some ms \<Rightarrow> ms)"

definition requested_stream :: "chat_data \<Rightarrow> bool" where
  "requested_stream data = (case stream data of None \<Rightarrow> False | Some b \<Rightarrow> b)"

text \<open>
  The body of the \<^verbatim>\<open>try\<close> block after the \<^verbatim>\<open>userId\<close> check: what it does, and the
  value it throws, if any.
\<close>

definition post_try :: "env \<Rightarrow> post_request \<Rightarrow> string \<Rightarrow> action list \<times> js_error option" where
  "post_try e req uid =
     (case validate e (body req) of
        Inl err \<Rightarrow> ([], Some err)
      | Inr data \<Rightarrow>
          (case (if requested_stream data
                 then post_stream e req uid (requested_messages data)
                 else post_plain e uid (requested_messages data)) of
             (done, thrown) \<Rightarrow> (LogDebug ''Validated chat data'' # done, thrown)))"

text \<open>\<^verbatim>\<open>reply.raw.headersSent\<close>: true once \<^verbatim>\<open>writeHead\<close> has run.\<close>

fun is_WriteHead :: "action \<Rightarrow> bool" where
  "is_WriteHead (WriteHead status hs) = True"
| "is_WriteHead a = False"

definition headersSent :: "action list \<Rightarrow> bool" where
  "headersSent done = list_ex is_WriteHead done"

text \<open>The \<^verbatim>\<open>catch\<close> block, given what the \<^verbatim>\<open>try\<close> block did before it threw.\<close>

definition post_catch :: "action list \<Rightarrow> js_error \<Rightarrow> action list" where
  "post_catch done err =
     LogError ''Chat error'' #
     (case err of
        ZodError errors m \<Rightarrow>
          (if headersSent done
           then [RawWrite (SseData (JObj [(''error'',
                   JStr (''Validation error: '' @ zod_message errors))])), RawEnd]
           else [ErrorResponse (''Validation error: '' @ zod_message errors) 400])
      | _ \<Rightarrow>
          (if headersSent done
           then [RawWrite (SseData (JObj [(''error'', JStr (message_or ''Stream failed'' err))])),
                 RawEnd]
           else [ErrorResponse (message_or ''Chat failed'' err)
                   (case err of AuthorizationError m \<Rightarrow> 401 | _ \<Rightarrow> 500)]))"

text \<open>The route handler, run with \<^verbatim>\<open>request.user\<close> set by the pre-handler.\<close>

definition post_handler :: "env \<Rightarrow> post_request \<Rightarrow> jwt_payload \<Rightarrow> action list" where
  "post_handler e req user =
     (case userId user of
        None \<Rightarrow> [LogWarn ''Chat request without userId'', UnauthorizedResponse None]
      | Some uid \<Rightarrow>
          (if uid = []
           then [LogWarn ''Chat request without userId'', UnauthorizedResponse None]
           else
             LogDebug ''Chat request'' #
             (case post_try e req uid of
                (done, None) \<Rightarrow> done
              | (done, Some err) \<Rightarrow> done @ post_catch done err)))"

text \<open>One request on the push-stream entry point: pre-handler, then handler.\<close>

definition post_chat :: "env \<Rightarrow> post_request \<Rightarrow> action list" where
  "post_chat e req =
     (case authenticate e req of
        (done, None) \<Rightarrow> done
      | (done, Some user) \<Rightarrow> done @ post_handler e req user)"

section \<open>GET /api/chat/stream (WebSocket)\<close>

text \<open>
  An inbound frame as \<^verbatim>\<open>JSON.parse(message.toString())\<close> sees it: text that does not
  parse (with the message of the \<^verbatim>\<open>SyntaxError\<close>), or the parsed value.
\<close>

datatype ws_text =
    Malformed string
  | Parsed json

text \<open>
  What the socket delivers to the two listeners. \<open>OnMessage text closeAt\<close> is one inbound
  frame; \<open>closeAt = Some k\<close> says that the peer closes the socket while the handler of this
  frame awaits pull number \<open>k\<close> (from 0) of its relay loop, so that the \<^verbatim>\<open>close\<close>
  listener runs there. \<open>OnClose\<close> is a close outside any relay loop.
\<close>

datatype ws_event =
    OnMessage ws_text "nat option"
  | OnClose

text \<open>The \<^verbatim>\<open>close\<close> listener.\<close>

definition on_close :: "action list" where
  "on_close = [ConsoleLog ''WebSocket connection closed'']"

fun later :: "nat option \<Rightarrow> nat option" where
  "later (Some (Suc k)) = Some k"
| "later (Some 0) = None"
| "later None = None"

text \<open>
  The \<^verbatim>\<open>for await\<close> loop of the socket: one pull for each chunk, one \<^verbatim>\<open>chunk\<close> frame
  for each chunk whose content is not empty, and the last pull. Nothing in the loop reads the
  state of the socket: a close during the loop runs the listener and the loop goes on.
\<close>

fun ws_relay :: "nat option \<Rightarrow> OpenAIStreamChunk list \<Rightarrow> action list" where
  "ws_relay closeAt [] = GenNext # (if closeAt = Some 0 then on_close else [])"
| "ws_relay closeAt (chunk # rest) =
     GenNext # (if closeAt = Some 0 then on_close else []) @
     (if chunk_content chunk \<noteq> []
      then [WsSend (JObj [(''type'', JStr ''chunk''), (''content'', JStr (chunk_content chunk))])]
      else []) @
     ws_relay (later closeAt) rest"

text \<open>The text of the \<^verbatim>\<open>TypeError\<close> of \<^verbatim>\<open>const { messages } = null\<close>.\<close>

definition destructure_null :: string where
  "destructure_null = ''Cannot destructure property messages of data as it is null.''"

text \<open>\<^verbatim>\<open>const { messages } = data\<close>: \<open>None\<close> is \<^verbatim>\<open>undefined\<close>, \<open>Inl\<close> the throw.\<close>

fun destructure_messages :: "json \<Rightarrow> js_error + json option" where
  "destructure_messages JNull = Inl (JsError destructure_null)"
| "destructure_messages (JObj kvs) = Inr (map_of kvs ''messages'')"
| "destructure_messages (JBool b) = Inr None"
| "destructure_messages (JNum n) = Inr None"
| "destructure_messages (JStr s) = Inr None"
| "destructure_messages (JArr xs) = Inr None"

text \<open>
  The \<^verbatim>\<open>try\<close> block of the \<^verbatim>\<open>message\<close> listener, with the \<^verbatim>\<open>userId\<close> of the
  connection: what it does and the value it throws, if any.
\<close>

definition ws_stream ::
  "env \<Rightarrow> string \<Rightarrow> json \<Rightarrow> nat option \<Rightarrow> action list \<times> js_error option" where
  "ws_stream e uid msgs closeAt =
     (case chat_stream e uid msgs of
        Inl err \<Rightarrow> ([LlmChat uid msgs True], Some err)
      | Inr (chunks, failure) \<Rightarrow>
          (case failure of
             Some err \<Rightarrow> (LlmChat uid msgs True # ws_relay closeAt chunks, Some err)
           | None \<Rightarrow>
               (LlmChat uid msgs True # ws_relay closeAt chunks @
                [WsSend (JObj [(''type'', JStr ''done'')])], None)))"

definition ws_try ::
  "env \<Rightarrow> string \<Rightarrow> ws_text \<Rightarrow> nat option \<Rightarrow> action list \<times> js_error option" where
  "ws_try e uid text closeAt =
     (case text of
        Malformed m \<Rightarrow> ([], Some (JsError m))
      | Parsed data \<Rightarrow>
          (case destructure_messages data of
             Inl err \<Rightarrow> ([], Some err)
           | Inr None \<Rightarrow> ([WsSend (JObj [(''error'', JStr ''messages are required'')])], None)
           | Inr (Some msgs) \<Rightarrow>
               (if \<not> truthy msgs
                then ([WsSend (JObj [(''error'', JStr ''messages are required'')])], None)
                else ws_stream e uid msgs closeAt)))"

text \<open>
  The \<^verbatim>\<open>catch\<close> block: \<^verbatim>\<open>send(JSON.stringify({ error: error.message }))\<close>. Reading
  \<^verbatim>\<open>message\<close> of \<^verbatim>\<open>null\<close> or \<^verbatim>\<open>undefined\<close> throws and nothing is sent; an
  \<^verbatim>\<open>undefined\<close> message leaves \<^verbatim>\<open>{}\<close>.
\<close>

fun ws_catch :: "js_error \<Rightarrow> action list" where
  "ws_catch (ZodError errors m) = [WsSend (JObj [(''error'', JStr m)])]"
| "ws_catch (AuthorizationError m) = [WsSend (JObj [(''error'', JStr m)])]"
| "ws_catch (JsError m) = [WsSend (JObj [(''error'', JStr m)])]"
| "ws_catch (NonError (Some m)) = [WsSend (JObj [(''error'', JStr m)])]"
| "ws_catch (NonError None) = [WsSend (JObj [])]"
| "ws_catch Nullish = []"

definition ws_on_message :: "env \<Rightarrow> string \<Rightarrow> ws_text \<Rightarrow> nat option \<Rightarrow> action list" where
  "ws_on_message e uid text closeAt =
     (case ws_try e uid text closeAt of
        (done, None) \<Rightarrow> done
      | (done, Some err) \<Rightarrow> done @ ws_catch err)"

fun ws_on_event :: "env \<Rightarrow> string \<Rightarrow> ws_event \<Rightarrow> action list" where
  "ws_on_event e uid (OnMessage text closeAt) = ws_on_message e uid text closeAt"
| "ws_on_event e uid OnClose = on_close"

text \<open>
  Connection establishment with the \<^verbatim>\<open>token\<close> query parameter: the actions, and the
  \<^verbatim>\<open>userId\<close> under which the listeners are registered; \<open>None\<close> when the handler returns
  before registering them.
\<close>

definition ws_establish :: "env \<Rightarrow> string option \<Rightarrow> action list \<times> string option" where
  "ws_establish e token =
     (case token of
        None \<Rightarrow> ([WsClose 1008 ''Missing authentication token''], None)
      | Some t \<Rightarrow>
          (if t = [] then ([WsClose 1008 ''Missing authentication token''], None)
           else
             (case jwt_verify e t of
                Inl err \<Rightarrow> ([WsClose 1008 ''Invalid or expired token''], None)
              | Inr decoded \<Rightarrow>
                  (case userId decoded of
                     None \<Rightarrow> ([WsClose 1008 ''Invalid token payload''], None)
                   | Some uid \<Rightarrow>
                       (if uid = [] then ([WsClose 1008 ''Invalid token payload''], None)
                        else ([], Some uid))))))"

text \<open>One connection: establishment, then the events the socket delivers, in order.\<close>

definition ws_connection :: "env \<Rightarrow> string option \<Rightarrow> ws_event list \<Rightarrow> action list" where
  "ws_connection e token events =
     (case ws_establish e token of
        (done, None) \<Rightarrow> done
      | (done, Some uid) \<Rightarrow> done @ concat (map (ws_on_event e uid) events))"

section \<open>What the peer and the upstream observe\<close>

text \<open>\<^verbatim>\<open>value[key]\<close> of a JSON value; \<open>None\<close> is \<^verbatim>\<open>undefined\<close>.\<close>

fun json_field :: "string \<Rightarrow> json \<Rightarrow> json option" where
  "json_field k (JObj kvs) = map_of kvs k"
| "json_field k j = None"

text \<open>The text of a content payload: a JSON object whose \<^verbatim>\<open>content\<close> is a string.\<close>

definition content_of :: "json \<Rightarrow> string list" where
  "content_of j = (case json_field ''content'' j of Some (JStr c) \<Rightarrow> [c] | _ \<Rightarrow> [])"

text \<open>An error-tagged payload: a JSON object with an \<^verbatim>\<open>error\<close> property.\<close>

definition error_tagged :: "json \<Rightarrow> bool" where
  "error_tagged j = (json_field ''error'' j \<noteq> None)"

text \<open>The events written on the push stream, in order.\<close>

fun sse_event :: "action \<Rightarrow> sse_payload list" where
  "sse_event (RawWrite p) = [p]"
| "sse_event a = []"

definition sse_events :: "action list \<Rightarrow> sse_payload list" where
  "sse_events done = concat (map sse_event done)"

fun sse_content :: "sse_payload \<Rightarrow> string list" where
  "sse_content (SseData j) = content_of j"
| "sse_content SseDone = []"

definition sse_contents :: "action list \<Rightarrow> string list" where
  "sse_contents done = concat (map sse_content (sse_events done))"

text \<open>A terminal event of the push stream: the done sentinel or an error-tagged event.\<close>

fun sse_terminal :: "sse_payload \<Rightarrow> bool" where
  "sse_terminal SseDone = True"
| "sse_terminal (SseData j) = error_tagged j"

text \<open>The frames sent on the socket, in order.\<close>

fun ws_frame :: "action \<Rightarrow> json list" where
  "ws_frame (WsSend j) = [j]"
| "ws_frame a = []"

definition ws_frames :: "action list \<Rightarrow> json list" where
  "ws_frames done = concat (map ws_frame done)"

text \<open>The text of a \<^verbatim>\<open>chunk\<close> frame.\<close>

definition ws_content :: "json \<Rightarrow> string list" where
  "ws_content j = (if json_field ''type'' j = Some (JStr ''chunk'') then content_of j else [])"

definition ws_contents :: "action list \<Rightarrow> string list" where
  "ws_contents done = concat (map ws_content (ws_frames done))"

text \<open>A terminal frame of the socket: the \<^verbatim>\<open>done\<close> frame or an error-tagged frame.\<close>

definition ws_terminal :: "json \<Rightarrow> bool" where
  "ws_terminal j = (json_field ''type'' j = Some (JStr ''done'') \<or> error_tagged j)"

text \<open>The number of pulls made on the generator.\<close>

definition pulls :: "action list \<Rightarrow> nat" where
  "pulls done = length (filter (\<lambda>a. a = GenNext) done)"

text \<open>The calls of \<^verbatim>\<open>llmService.chat\<close>: the identity and the messages passed.\<close>

fun llm_call :: "action \<Rightarrow> (string \<times> json) list" where
  "llm_call (LlmChat uid msgs streaming) = [(uid, msgs)]"
| "llm_call a = []"

definition llm_calls :: "action list \<Rightarrow> (string \<times> json) list" where
  "llm_calls done = concat (map llm_call done)"

text \<open>The out-of-band responses: the calls of the helpers of \<^verbatim>\<open>utils/response\<close>.\<close>

fun is_response :: "action \<Rightarrow> bool" where
  "is_response (UnauthorizedResponse m) = True"
| "is_response (SuccessResponse j) = True"
| "is_response (ErrorResponse m status) = True"
| "is_response a = False"

definition responses :: "action list \<Rightarrow> action list" where
  "responses done = filter is_response done"

text \<open>The fragments of an acquired generator; none when \<^verbatim>\<open>llmService.chat\<close> throws.\<close>

fun fragments :: "js_error + generator \<Rightarrow> string list" where
  "fragments (Inl err) = []"
| "fragments (Inr (chunks, failure)) = map chunk_content chunks"

text \<open>The value the upstream throws, at acquisition or after its chunks, if any.\<close>

fun upstream_failure :: "js_error + generator \<Rightarrow> js_error option" where
  "upstream_failure (Inl err) = Some err"
| "upstream_failure (Inr (chunks, failure)) = failure"

text \<open>
  The pulls that drain an acquired generator: one for each chunk and the one that finds it
  finished or failed.
\<close>

fun drained :: "js_error + generator \<Rightarrow> nat" where
  "drained (Inl err) = 0"
| "drained (Inr (chunks, failure)) = Suc (length chunks)"

text \<open>The text of the in-band error event of the push stream, by the value thrown.\<close>

definition in_band_text :: "js_error \<Rightarrow> string" where
  "in_band_text err =
     (case err of
        ZodError errors m \<Rightarrow> ''Validation error: '' @ zod_message errors
      | _ \<Rightarrow> message_or ''Stream failed'' err)"

text \<open>What a streaming request does after acquiring the upstream, by the outcome.\<close>

fun stream_tail :: "js_error + generator \<Rightarrow> action list" where
  "stream_tail (Inl err) =
     [LogError ''Chat error'',
      RawWrite (SseData (JObj [(''error'', JStr (in_band_text err))])), RawEnd]"
| "stream_tail (Inr (chunks, None)) = sse_relay chunks @ [RawWrite SseDone, RawEnd]"
| "stream_tail (Inr (chunks, Some err)) =
     sse_relay chunks @
     [LogError ''Chat error'',
      RawWrite (SseData (JObj [(''error'', JStr (in_band_text err))])), RawEnd]"

text \<open>What the socket listener does after acquiring the upstream, by the outcome.\<close>

fun ws_tail :: "nat option \<Rightarrow> js_error + generator \<Rightarrow> action list" where
  "ws_tail closeAt (Inl err) = ws_catch err"
| "ws_tail closeAt (Inr (chunks, None)) =
     ws_relay closeAt chunks @ [WsSend (JObj [(''type'', JStr ''done'')])]"
| "ws_tail closeAt (Inr (chunks, Some err)) = ws_relay closeAt chunks @ ws_catch err"

text \<open>
  What a handler does from the moment the \<^verbatim>\<open>close\<close> listener has run, and the reading
  of "once the peer is gone, no further send and no further pull".
\<close>

definition after_close :: "action list \<Rightarrow> action list" where
  "after_close done = dropWhile (\<lambda>a. a \<noteq> ConsoleLog ''WebSocket connection closed'') done"

definition stops_at_close :: "action list \<Rightarrow> bool" where
  "stops_at_close done = (ws_frames (after_close done) = [] \<and> pulls (after_close done) = 0)"

text \<open>
  \<^verbatim>\<open>error.message\<close> of a thrown value, when reading it gives a string: \<open>None\<close> for a
  value without that property and for \<^verbatim>\<open>null\<close> and \<^verbatim>\<open>undefined\<close>.
\<close>

fun thrown_message :: "js_error \<Rightarrow> string option" where
  "thrown_message (ZodError errors m) = Some m"
| "thrown_message (AuthorizationError m) = Some m"
| "thrown_message (JsError m) = Some m"
| "thrown_message (NonError m) = m"
| "thrown_message Nullish = None"

text \<open>The messages with which a frame reaches the upstream, if it does.\<close>

fun frame_messages :: "ws_text \<Rightarrow> json option" where
  "frame_messages (Malformed m) = None"
| "frame_messages (Parsed payload) =
     (case destructure_messages payload of
        Inl err \<Rightarrow> None
      | Inr None \<Rightarrow> None
      | Inr (Some msgs) \<Rightarrow> if truthy msgs then Some msgs else None)"

text \<open>A rejection at each entry point: the 401 helper, and the close with code 1008.\<close>

fun is_unauthorized :: "action \<Rightarrow> bool" where
  "is_unauthorized (UnauthorizedResponse m) = True"
| "is_unauthorized a = False"

fun is_policy_close :: "action \<Rightarrow> bool" where
  "is_policy_close (WsClose code reason) = (code = 1008)"
| "is_policy_close a = False"

definition post_rejects :: "env \<Rightarrow> post_request \<Rightarrow> bool" where
  "post_rejects e req = list_ex is_unauthorized (post_chat e req)"

definition ws_rejects :: "env \<Rightarrow> string option \<Rightarrow> ws_event list \<Rightarrow> bool" where
  "ws_rejects e token events = list_ex is_policy_close (ws_connection e token events)"

text \<open>
  Modelled from the spec: the non-streaming mode of \<^verbatim>\<open>llmService.chat\<close>, of
  \<^verbatim>\<open>services/llm.service\<close>, which is not among the sources. Section 4.3: with streaming
  disabled the upstream generator is fully drained, the text of all fragments is
  concatenated in order, and one complete response is returned; a failure of the upstream is
  thrown.
\<close>

definition drain :: "js_error + generator \<Rightarrow> js_error + string" where
  "drain r =
     (case r of
        Inl err \<Rightarrow> Inl err
      | Inr (chunks, failure) \<Rightarrow>
          (case failure of
             Some err \<Rightarrow> Inl err
           | None \<Rightarrow> Inr (concat (map chunk_content chunks))))"

section \<open>Example inputs\<close>

definition text_chunk :: "string \<Rightarrow> OpenAIStreamChunk" where
  "text_chunk s = OpenAIStreamChunk [Choice (Some (Delta (Some s)))]"

definition demo_verify :: "string \<Rightarrow> js_error + jwt_payload" where
  "demo_verify t =
     (if t = ''good'' then Inr \<lparr>userId = Some ''u1'', email = Some ''u1@example.org''\<rparr>
      else if t = ''anon'' then Inr \<lparr>userId = None, email = None\<rparr>
      else Inl (JsError ''jwt malformed''))"

definition demo_issue :: js_error where
  "demo_issue =
     ZodError [\<lparr>path = [''messages''], issue_message = ''Array must contain at least 1 element(s)''\<rparr>]
       ''invalid''"

definition demo_validate :: "json \<Rightarrow> js_error + chat_data" where
  "demo_validate b =
     (case json_field ''messages'' b of
        Some (JArr ms) \<Rightarrow>
          (if ms = [] then Inl demo_issue
           else Inr \<lparr>messages = Some ms,
                     stream = (case json_field ''stream'' b of Some (JBool s) \<Rightarrow> Some s | _ \<Rightarrow> None)\<rparr>)
      | _ \<Rightarrow> Inl demo_issue)"

text \<open>An environment whose generator yields the given chunks and then fails as given.\<close>

definition demo_env :: "OpenAIStreamChunk list \<Rightarrow> js_error option \<Rightarrow> env" where
  "demo_env chunks failure =
     \<lparr>jwt_verify = demo_verify,
      validate = demo_validate,
      chat_stream = (\<lambda>uid msgs. Inr (chunks, failure)),
      chat_text = (\<lambda>uid msgs. Inr ''Hello''),
      NODE_ENV = Some ''development'',
      FRONTEND_URL = ''https://app.example.org''\<rparr>"

definition hi :: json where
  "hi = JArr [JObj [(''role'', JStr ''user''), (''content'', JStr ''hi'')]]"

definition demo_request :: "json \<Rightarrow> post_request" where
  "demo_request b = \<lparr>authorization = Some ''good'', origin = None, body = b\<rparr>"

definition hi_there :: "OpenAIStreamChunk list" where
  "hi_there = [text_chunk ''Hi'', text_chunk [], text_chunk '' there'']"

definition streaming_body :: json where
  "streaming_body = JObj [(''messages'', hi), (''stream'', JBool True)]"

definition plain_body :: json where
  "plain_body = JObj [(''messages'', hi), (''stream'', JBool False)]"

definition u1 :: jwt_payload where
  "u1 = \<lparr>userId = Some ''u1'', email = Some ''u1@example.org''\<rparr>"


text \<open>An environment whose non-streaming mode drains the generator of the streaming mode.\<close>

definition hello_env :: env where
  "hello_env =
     (demo_env [text_chunk ''Hel'', text_chunk ''lo''] None)
       \<lparr>chat_text := (\<lambda>uid msgs. drain (Inr ([text_chunk ''Hel'', text_chunk ''lo''], None)))\<rparr>"

section \<open>The relay loops\<close>

lemma sse_relay_events:
  "sse_events (sse_relay chunks) =
     map (\<lambda>c. SseData (JObj [(''content'', JStr c)]))
       (filter (\<lambda>s. s \<noteq> []) (map chunk_content chunks))"
  by (induction chunks) (simp_all add: sse_events_def)

lemma sse_relay_pulls: "pulls (sse_relay chunks) = Suc (length chunks)"
  by (induction chunks) (simp_all add: pulls_def)

lemma sse_relay_no_head: "\<not> list_ex is_WriteHead (sse_relay chunks)"
  by (induction chunks) simp_all

lemma sse_relay_no_response: "responses (sse_relay chunks) = []"
  by (induction chunks) (simp_all add: responses_def)

lemma ws_relay_frames:
  "ws_frames (ws_relay closeAt chunks) =
     map (\<lambda>c. JObj [(''type'', JStr ''chunk''), (''content'', JStr c)])
       (filter (\<lambda>s. s \<noteq> []) (map chunk_content chunks))"
  by (induction chunks arbitrary: closeAt) (simp_all add: ws_frames_def on_close_def)

lemma ws_relay_pulls: "pulls (ws_relay closeAt chunks) = Suc (length chunks)"
  by (induction chunks arbitrary: closeAt) (simp_all add: pulls_def on_close_def)

lemma ws_catch_frames_no_content: "concat (map ws_content (ws_frames (ws_catch err))) = []"
  by (cases err rule: ws_catch.cases) (simp_all add: ws_frames_def ws_content_def)

lemma ws_catch_pulls: "pulls (ws_catch err) = 0"
  by (cases err rule: ws_catch.cases) (simp_all add: pulls_def)

section \<open>The two entry points, by the outcome of the upstream\<close>

lemma post_catch_committed:
  "headersSent done \<Longrightarrow>
   post_catch done err =
     [LogError ''Chat error'',
      RawWrite (SseData (JObj [(''error'', JStr (in_band_text err))])), RawEnd]"
  by (cases err) (simp_all add: post_catch_def in_band_text_def)

lemma post_chat_accepted:
  assumes "request_jwtVerify e req = Inr user" and "userId user = Some uid" and "uid \<noteq> []"
  shows "post_chat e req =
           LogDebug ''Chat request'' #
           (case post_try e req uid of
              (done, None) \<Rightarrow> done
            | (done, Some err) \<Rightarrow> done @ post_catch done err)"
  using assms by (simp add: post_chat_def authenticate_def post_handler_def)

lemma post_chat_streaming:
  assumes "request_jwtVerify e req = Inr user" and "userId user = Some uid" and "uid \<noteq> []"
    and "validate e (body req) = Inr data" and "requested_stream data"
  shows "post_chat e req =
           [LogDebug ''Chat request'', LogDebug ''Validated chat data'',
            WriteHead 200 (sse_headers e req),
            LlmChat uid (JArr (requested_messages data)) True] @
           stream_tail (chat_stream e uid (JArr (requested_messages data)))"
proof (cases "chat_stream e uid (JArr (requested_messages data))")
  case (Inl err)
  then show ?thesis
    using assms
    by (simp add: post_chat_accepted [OF assms(1-3)] post_try_def post_stream_def
        post_catch_committed headersSent_def)
next
  case (Inr g)
  obtain chunks failure where g: "g = (chunks, failure)" by (cases g)
  show ?thesis
  proof (cases failure)
    case None
    then show ?thesis
      using assms Inr g
      by (simp add: post_chat_accepted [OF assms(1-3)] post_try_def post_stream_def)
  next
    case (Some err)
    then show ?thesis
      using assms Inr g
      by (simp add: post_chat_accepted [OF assms(1-3)] post_try_def post_stream_def
          post_catch_committed headersSent_def)
  qed
qed

lemma ws_on_message_streaming:
  assumes "destructure_messages payload = Inr (Some msgs)" and "truthy msgs"
  shows "ws_on_message e uid (Parsed payload) closeAt =
           LlmChat uid msgs True # ws_tail closeAt (chat_stream e uid msgs)"
proof (cases "chat_stream e uid msgs")
  case (Inl err)
  then show ?thesis
    using assms by (simp add: ws_on_message_def ws_try_def ws_stream_def)
next
  case (Inr g)
  obtain chunks failure where g: "g = (chunks, failure)" by (cases g)
  show ?thesis
    using assms Inr g by (cases failure) (simp_all add: ws_on_message_def ws_try_def ws_stream_def)
qed

lemma stream_tail_contents:
  "concat (map sse_content (sse_events (stream_tail r))) =
     filter (\<lambda>s. s \<noteq> []) (fragments r)"
proof (cases r rule: stream_tail.cases)
  case (1 err)
  then show ?thesis by (simp add: sse_events_def content_of_def)
next
  case (2 chunks)
  have "sse_events (stream_tail r) = sse_events (sse_relay chunks) @ [SseDone]"
    using 2 by (simp add: sse_events_def)
  then show ?thesis
    using 2 by (simp add: sse_relay_events comp_def content_of_def)
next
  case (3 chunks err)
  have "sse_events (stream_tail r) =
          sse_events (sse_relay chunks) @ [SseData (JObj [(''error'', JStr (in_band_text err))])]"
    using 3 by (simp add: sse_events_def)
  then show ?thesis
    using 3 by (simp add: sse_relay_events comp_def content_of_def)
qed

lemma stream_tail_pulls: "pulls (stream_tail r) = drained r"
proof (cases r rule: stream_tail.cases)
  case (1 err)
  then show ?thesis by (simp add: pulls_def)
next
  case (2 chunks)
  have "pulls (stream_tail r) = pulls (sse_relay chunks)"
    using 2 by (simp add: pulls_def)
  then show ?thesis using 2 by (simp add: sse_relay_pulls)
next
  case (3 chunks err)
  have "pulls (stream_tail r) = pulls (sse_relay chunks)"
    using 3 by (simp add: pulls_def)
  then show ?thesis using 3 by (simp add: sse_relay_pulls)
qed

lemma ws_tail_contents:
  "concat (map ws_content (ws_frames (ws_tail closeAt r))) =
     filter (\<lambda>s. s \<noteq> []) (fragments r)"
proof (cases r rule: stream_tail.cases)
  case (1 err)
  then show ?thesis by (simp add: ws_catch_frames_no_content)
next
  case (2 chunks)
  have "ws_frames (ws_tail closeAt r) =
          ws_frames (ws_relay closeAt chunks) @ [JObj [(''type'', JStr ''done'')]]"
    using 2 by (simp add: ws_frames_def)
  then show ?thesis
    using 2 by (simp add: ws_relay_frames comp_def ws_content_def content_of_def)
next
  case (3 chunks err)
  have "ws_frames (ws_tail closeAt r) =
          ws_frames (ws_relay closeAt chunks) @ ws_frames (ws_catch err)"
    using 3 by (simp add: ws_frames_def)
  then show ?thesis
    using 3
    by (simp add: ws_relay_frames comp_def ws_content_def content_of_def
        ws_catch_frames_no_content)
qed

lemma ws_tail_pulls: "pulls (ws_tail closeAt r) = drained r"
proof (cases r rule: stream_tail.cases)
  case (1 err)
  then show ?thesis by (simp add: ws_catch_pulls)
next
  case (2 chunks)
  have "pulls (ws_tail closeAt r) = pulls (ws_relay closeAt chunks)"
    using 2 by (simp add: pulls_def)
  then show ?thesis using 2 by (simp add: ws_relay_pulls)
next
  case (3 chunks err)
  have "pulls (ws_tail closeAt r) = pulls (ws_relay closeAt chunks) + pulls (ws_catch err)"
    using 3 by (simp add: pulls_def)
  then show ?thesis using 3 by (simp add: ws_relay_pulls ws_catch_pulls)
qed

section \<open>Claims\<close>

text \<open>The equations that run the two entry points on the example inputs.\<close>

lemmas run_defs =
  post_chat_def authenticate_def request_jwtVerify_def post_handler_def post_try_def
  post_stream_def post_plain_def post_catch_def headersSent_def requested_stream_def
  requested_messages_def sse_headers_def allowedOrigin_def zod_message_def
  ws_connection_def ws_establish_def ws_on_message_def ws_try_def ws_stream_def
  on_close_def chunk_content_def

lemmas observe_defs =
  sse_events_def ws_frames_def pulls_def llm_calls_def responses_def

lemmas demo_defs =
  demo_env_def demo_request_def demo_verify_def demo_validate_def demo_issue_def u1_def
  streaming_body_def plain_body_def hi_def hi_there_def text_chunk_def

subsection \<open>Order of the relayed fragments\<close>

text \<open>
  C1. In a streaming session the content payloads sent are the fragments of the generator
  without the empty ones, in the order of production, each once; every fragment, empty or
  not, is pulled. On the push stream the session is a request that passes authentication and
  validation with \<^verbatim>\<open>stream\<close> set; on the socket it is a frame whose \<^verbatim>\<open>messages\<close> is
  truthy, handled on an established connection, whenever the peer closes.
\<close>

theorem relay_sends_nonempty_fragments_in_order:
  "(request_jwtVerify e req = Inr user \<and> userId user = Some uid \<and> uid \<noteq> [] \<and>
    validate e (body req) = Inr data \<and> requested_stream data \<longrightarrow>
      sse_contents (post_chat e req) =
        filter (\<lambda>s. s \<noteq> []) (fragments (chat_stream e uid (JArr (requested_messages data)))) \<and>
      pulls (post_chat e req) = drained (chat_stream e uid (JArr (requested_messages data)))) \<and>
   (destructure_messages payload = Inr (Some msgs) \<and> truthy msgs \<longrightarrow>
      ws_contents (ws_on_message e wuid (Parsed payload) closeAt) =
        filter (\<lambda>s. s \<noteq> []) (fragments (chat_stream e wuid msgs)) \<and>
      pulls (ws_on_message e wuid (Parsed payload) closeAt) = drained (chat_stream e wuid msgs))"
proof (intro conjI impI)
  assume h: "request_jwtVerify e req = Inr user \<and> userId user = Some uid \<and> uid \<noteq> [] \<and>
    validate e (body req) = Inr data \<and> requested_stream data"
  let ?r = "chat_stream e uid (JArr (requested_messages data))"
  have tr: "post_chat e req =
      [LogDebug ''Chat request'', LogDebug ''Validated chat data'',
       WriteHead 200 (sse_headers e req),
       LlmChat uid (JArr (requested_messages data)) True] @ stream_tail ?r"
    using h post_chat_streaming [of e req user uid data] by simp
  have "sse_events (post_chat e req) = sse_events (stream_tail ?r)"
    by (simp add: tr sse_events_def)
  then show "sse_contents (post_chat e req) = filter (\<lambda>s. s \<noteq> []) (fragments ?r)"
    by (simp add: sse_contents_def stream_tail_contents)
  have "pulls (post_chat e req) = pulls (stream_tail ?r)"
    by (simp add: tr pulls_def)
  then show "pulls (post_chat e req) = drained ?r"
    by (simp add: stream_tail_pulls)
next
  assume h: "destructure_messages payload = Inr (Some msgs) \<and> truthy msgs"
  let ?r = "chat_stream e wuid msgs"
  have tr: "ws_on_message e wuid (Parsed payload) closeAt =
      LlmChat wuid msgs True # ws_tail closeAt ?r"
    using h ws_on_message_streaming [of payload msgs e wuid closeAt] by simp
  have "ws_frames (ws_on_message e wuid (Parsed payload) closeAt) = ws_frames (ws_tail closeAt ?r)"
    by (simp add: tr ws_frames_def)
  then show "ws_contents (ws_on_message e wuid (Parsed payload) closeAt) =
      filter (\<lambda>s. s \<noteq> []) (fragments ?r)"
    by (simp add: ws_contents_def ws_tail_contents)
  have "pulls (ws_on_message e wuid (Parsed payload) closeAt) = pulls (ws_tail closeAt ?r)"
    by (simp add: tr pulls_def)
  then show "pulls (ws_on_message e wuid (Parsed payload) closeAt) = drained ?r"
    by (simp add: ws_tail_pulls)
qed

theorem relay_sends_nonempty_fragments_in_order_witness:
  "request_jwtVerify (demo_env hi_there None) (demo_request streaming_body) = Inr u1 \<and>
   userId u1 = Some ''u1'' \<and>
   validate (demo_env hi_there None) (body (demo_request streaming_body)) =
     Inr \<lparr>messages = Some [JObj [(''role'', JStr ''user''), (''content'', JStr ''hi'')]],
          stream = Some True\<rparr> \<and>
   destructure_messages (JObj [(''messages'', hi)]) = Inr (Some hi) \<and> truthy hi \<and>
   sse_contents (post_chat (demo_env hi_there None) (demo_request streaming_body)) =
     [''Hi'', '' there''] \<and>
   pulls (post_chat (demo_env hi_there None) (demo_request streaming_body)) = 4 \<and>
   ws_contents (ws_on_message (demo_env hi_there None) ''u1''
      (Parsed (JObj [(''messages'', hi)])) (Some 1)) = [''Hi'', '' there''] \<and>
   pulls (ws_on_message (demo_env hi_there None) ''u1''
      (Parsed (JObj [(''messages'', hi)])) (Some 1)) = 4"
  using relay_sends_nonempty_fragments_in_order
    [where e = "demo_env hi_there None" and req = "demo_request streaming_body" and user = u1
       and uid = "''u1''" and wuid = "''u1''" and closeAt = "Some 1"
       and data = "\<lparr>messages = Some [JObj [(''role'', JStr ''user''), (''content'', JStr ''hi'')]],
          stream = Some True\<rparr>"
       and payload = "JObj [(''messages'', hi)]" and msgs = hi]
  by (simp add: run_defs observe_defs demo_defs sse_contents_def ws_contents_def
      ws_content_def content_of_def)

subsection \<open>Headers and validation\<close>

lemma post_chat_rejected:
  "request_jwtVerify e req = Inl err \<Longrightarrow>
   post_chat e req = [UnauthorizedResponse (Some ''Invalid or expired token'')]"
  by (simp add: post_chat_def authenticate_def)

lemma post_chat_no_userId:
  "request_jwtVerify e req = Inr user \<Longrightarrow> userId user = None \<or> userId user = Some [] \<Longrightarrow>
   post_chat e req = [LogWarn ''Chat request without userId'', UnauthorizedResponse None]"
  by (auto simp add: post_chat_def authenticate_def post_handler_def)

lemma post_catch_uncommitted:
  "\<not> headersSent done \<Longrightarrow>
   post_catch done err =
     [LogError ''Chat error'',
      (case err of
         ZodError errors m \<Rightarrow> ErrorResponse (''Validation error: '' @ zod_message errors) 400
       | AuthorizationError m \<Rightarrow> ErrorResponse m 401
       | _ \<Rightarrow> ErrorResponse (message_or ''Chat failed'' err) 500)]"
  by (cases err) (simp_all add: post_catch_def)

lemma post_chat_invalid:
  assumes "request_jwtVerify e req = Inr user" and "userId user = Some uid" and "uid \<noteq> []"
    and "validate e (body req) = Inl err"
  shows "post_chat e req = LogDebug ''Chat request'' # post_catch [] err"
  using assms(4) by (simp add: post_chat_accepted [OF assms(1-3)] post_try_def)

lemma post_chat_plain:
  assumes "request_jwtVerify e req = Inr user" and "userId user = Some uid" and "uid \<noteq> []"
    and "validate e (body req) = Inr data" and "\<not> requested_stream data"
  shows "post_chat e req =
           [LogDebug ''Chat request'', LogDebug ''Validated chat data'',
            LlmChat uid (JArr (requested_messages data)) False] @
           (case chat_text e uid (JArr (requested_messages data)) of
              Inl err \<Rightarrow> post_catch [] err
            | Inr response \<Rightarrow>
                [SuccessResponse
                   (JObj [(''message'',
                           JObj [(''role'', JStr ''assistant''),
                                 (''content'', JStr response)])])])"
  using assms(4,5)
  by (simp add: post_chat_accepted [OF assms(1-3)] post_try_def post_plain_def
      post_catch_uncommitted headersSent_def split: sum.splits)

lemma post_catch_no_head: "filter is_WriteHead (post_catch [] err) = []"
  by (cases err) (simp_all add: post_catch_uncommitted headersSent_def)

lemma stream_tail_no_head: "filter is_WriteHead (stream_tail r) = []"
  using sse_relay_no_head
  by (cases r rule: stream_tail.cases) (simp_all add: list_ex_iff filter_empty_conv)

text \<open>The five ways a request on the push-stream entry point goes.\<close>

lemma post_chat_cases:
  obtains
    (rejected) err where "request_jwtVerify e req = Inl err"
  | (anonymous) user where "request_jwtVerify e req = Inr user"
      and "userId user = None \<or> userId user = Some []"
  | (invalid) user uid err where "request_jwtVerify e req = Inr user"
      and "userId user = Some uid" and "uid \<noteq> []" and "validate e (body req) = Inl err"
  | (plain) user uid data where "request_jwtVerify e req = Inr user"
      and "userId user = Some uid" and "uid \<noteq> []" and "validate e (body req) = Inr data"
      and "\<not> requested_stream data"
  | (streaming) user uid data where "request_jwtVerify e req = Inr user"
      and "userId user = Some uid" and "uid \<noteq> []" and "validate e (body req) = Inr data"
      and "requested_stream data"
proof (cases "request_jwtVerify e req")
  case (Inl err)
  then show ?thesis by (rule rejected)
next
  case (Inr user)
  show ?thesis
  proof (cases "userId user")
    case None
    with Inr show ?thesis by (intro anonymous [of user]) simp_all
  next
    case (Some uid)
    show ?thesis
    proof (cases "uid = []")
      case True
      with Inr Some show ?thesis by (intro anonymous [of user]) simp_all
    next
      case False
      show ?thesis
      proof (cases "validate e (body req)")
        case (Inl err)
        with Inr Some False show ?thesis by (intro invalid)
      next
        case data: (Inr data)
        with Inr Some False show ?thesis
          by (cases "requested_stream data") (auto intro: plain streaming)
      qed
    qed
  qed
qed

lemma heads_of_post_chat:
  "filter is_WriteHead (post_chat e req) =
     (if headersSent (post_chat e req) then [WriteHead 200 (sse_headers e req)] else [])"
proof (cases e req rule: post_chat_cases)
  case (rejected err)
  then show ?thesis by (simp add: post_chat_rejected headersSent_def)
next
  case (anonymous user)
  then show ?thesis by (simp add: post_chat_no_userId [OF anonymous] headersSent_def)
next
  case (invalid user uid err)
  then show ?thesis
    by (simp add: post_chat_invalid [OF invalid] headersSent_def post_catch_no_head
        list_ex_iff filter_empty_conv [symmetric])
next
  case (plain user uid data)
  then show ?thesis
    by (simp add: post_chat_plain [OF plain] headersSent_def post_catch_no_head
        list_ex_iff filter_empty_conv [symmetric] split: sum.splits)
next
  case (streaming user uid data)
  then show ?thesis
    by (simp add: post_chat_streaming [OF streaming] headersSent_def stream_tail_no_head)
qed

lemma committed_only_streaming:
  assumes "headersSent (post_chat e req)"
  shows "\<exists>user uid data. request_jwtVerify e req = Inr user \<and> userId user = Some uid \<and>
           uid \<noteq> [] \<and> validate e (body req) = Inr data \<and> requested_stream data"
proof (cases e req rule: post_chat_cases)
  case (rejected err)
  with assms show ?thesis by (simp add: post_chat_rejected headersSent_def)
next
  case (anonymous user)
  with assms show ?thesis by (simp add: post_chat_no_userId [OF anonymous] headersSent_def)
next
  case (invalid user uid err)
  with assms show ?thesis
    using post_catch_no_head [of err]
    by (simp add: post_chat_invalid [OF invalid] headersSent_def
        list_ex_iff filter_empty_conv)
next
  case (plain user uid data)
  with assms show ?thesis
    using post_catch_no_head
    by (simp add: post_chat_plain [OF plain] headersSent_def
        list_ex_iff filter_empty_conv split: sum.splits)
next
  case (streaming user uid data)
  then show ?thesis by blast
qed

text \<open>
  C2. On the push-stream entry point the headers are written at most once per request, and
  only after validation has succeeded: when they are written, \<^verbatim>\<open>validate\<close> has returned
  and the log line that follows it precedes the \<^verbatim>\<open>writeHead\<close>. When validation fails
  (\<^verbatim>\<open>validate\<close> throws a \<^verbatim>\<open>ZodError\<close>, which is what the route handles as a validation
  error), the headers are never written, nothing is written on the stream, and the one
  response is the structured error with status 400.
\<close>

theorem headers_once_and_only_after_validation:
  "length (filter is_WriteHead (post_chat e req)) \<le> 1 \<and>
   (headersSent (post_chat e req) \<longrightarrow>
      \<not> isl (validate e (body req)) \<and>
      LogDebug ''Validated chat data'' \<in>
        set (takeWhile (\<lambda>a. \<not> is_WriteHead a) (post_chat e req))) \<and>
   (request_jwtVerify e req = Inr user \<and> userId user = Some uid \<and> uid \<noteq> [] \<and>
    validate e (body req) = Inl (ZodError errors m) \<longrightarrow>
      \<not> headersSent (post_chat e req) \<and> sse_events (post_chat e req) = [] \<and>
      responses (post_chat e req) =
        [ErrorResponse (''Validation error: '' @ zod_message errors) 400])"
proof (intro conjI impI)
  show "length (filter is_WriteHead (post_chat e req)) \<le> 1"
    by (simp add: heads_of_post_chat)
next
  assume "headersSent (post_chat e req)"
  then obtain user uid data where s: "request_jwtVerify e req = Inr user"
    "userId user = Some uid" "uid \<noteq> []" "validate e (body req) = Inr data"
    "requested_stream data"
    using committed_only_streaming by blast
  show "\<not> isl (validate e (body req))"
    using s(4) by simp
  show "LogDebug ''Validated chat data'' \<in>
      set (takeWhile (\<lambda>a. \<not> is_WriteHead a) (post_chat e req))"
    by (simp add: post_chat_streaming [OF s])
next
  assume h: "request_jwtVerify e req = Inr user \<and> userId user = Some uid \<and> uid \<noteq> [] \<and>
    validate e (body req) = Inl (ZodError errors m)"
  then have tr: "post_chat e req =
      [LogDebug ''Chat request'', LogError ''Chat error'',
       ErrorResponse (''Validation error: '' @ zod_message errors) 400]"
    using post_chat_invalid [of e req user uid "ZodError errors m"]
    by (simp add: post_catch_uncommitted headersSent_def)
  show "\<not> headersSent (post_chat e req)"
    by (simp add: tr headersSent_def)
  show "sse_events (post_chat e req) = []"
    by (simp add: tr sse_events_def)
  show "responses (post_chat e req) =
      [ErrorResponse (''Validation error: '' @ zod_message errors) 400]"
    by (simp add: tr responses_def)
qed

theorem headers_once_and_only_after_validation_witness:
  "headersSent (post_chat (demo_env hi_there None) (demo_request streaming_body)) \<and>
   length (filter is_WriteHead
     (post_chat (demo_env hi_there None) (demo_request streaming_body))) \<le> 1 \<and>
   \<not> isl (validate (demo_env hi_there None) (body (demo_request streaming_body))) \<and>
   LogDebug ''Validated chat data'' \<in>
     set (takeWhile (\<lambda>a. \<not> is_WriteHead a)
       (post_chat (demo_env hi_there None) (demo_request streaming_body))) \<and>
   request_jwtVerify (demo_env hi_there None) (demo_request (JObj [(''messages'', JArr [])])) =
     Inr u1 \<and>
   userId u1 = Some ''u1'' \<and>
   validate (demo_env hi_there None) (body (demo_request (JObj [(''messages'', JArr [])]))) =
     Inl (ZodError
       [\<lparr>path = [''messages''], issue_message = ''Array must contain at least 1 element(s)''\<rparr>]
       ''invalid'') \<and>
   \<not> headersSent (post_chat (demo_env hi_there None)
     (demo_request (JObj [(''messages'', JArr [])]))) \<and>
   sse_events (post_chat (demo_env hi_there None)
     (demo_request (JObj [(''messages'', JArr [])]))) = [] \<and>
   responses (post_chat (demo_env hi_there None)
     (demo_request (JObj [(''messages'', JArr [])]))) =
     [ErrorResponse
        ''Validation error: messages: Array must contain at least 1 element(s)'' 400]"
  using
    headers_once_and_only_after_validation
      [where e = "demo_env hi_there None" and req = "demo_request streaming_body"]
    headers_once_and_only_after_validation
      [where e = "demo_env hi_there None"
         and req = "demo_request (JObj [(''messages'', JArr [])])"
         and user = u1 and uid = "''u1''" and m = "''invalid''"
         and errors = "[\<lparr>path = [''messages''],
            issue_message = ''Array must contain at least 1 element(s)''\<rparr>]"]
  by (simp add: run_defs observe_defs demo_defs)

subsection \<open>A peer that goes away\<close>

lemma ws_relay_close_only_logs:
  "filter (\<lambda>a. a \<noteq> ConsoleLog ''WebSocket connection closed'') (ws_relay closeAt chunks) =
     ws_relay None chunks"
  by (induction chunks arbitrary: closeAt) (simp_all add: on_close_def)

lemma ws_catch_no_log:
  "filter (\<lambda>a. a \<noteq> ConsoleLog ''WebSocket connection closed'') (ws_catch err) = ws_catch err"
  by (cases err rule: ws_catch.cases) simp_all

lemma ws_tail_close_only_logs:
  "filter (\<lambda>a. a \<noteq> ConsoleLog ''WebSocket connection closed'') (ws_tail closeAt r) =
     ws_tail None r"
  by (cases r rule: stream_tail.cases)
    (simp_all add: ws_relay_close_only_logs ws_catch_no_log)

lemma ws_try_Parsed_cases:
  obtains
    (throws) err where "destructure_messages payload = Inl err"
  | (missing) "destructure_messages payload = Inr None"
  | (falsy) msgs where "destructure_messages payload = Inr (Some msgs)" and "\<not> truthy msgs"
  | (streams) msgs where "destructure_messages payload = Inr (Some msgs)" and "truthy msgs"
proof (cases "destructure_messages payload")
  case (Inl err)
  then show ?thesis by (rule throws)
next
  case (Inr m)
  show ?thesis
  proof (cases m)
    case None
    with Inr show ?thesis by (intro missing) simp
  next
    case (Some msgs)
    with Inr show ?thesis by (cases "truthy msgs") (auto intro: falsy streams)
  qed
qed

lemma ws_on_message_close_only_logs:
  "filter (\<lambda>a. a \<noteq> ConsoleLog ''WebSocket connection closed'')
     (ws_on_message e uid frame closeAt) = ws_on_message e uid frame None"
proof (cases frame)
  case (Malformed m)
  then show ?thesis by (simp add: ws_on_message_def ws_try_def)
next
  case (Parsed payload)
  show ?thesis
  proof (cases payload rule: ws_try_Parsed_cases)
    case (throws err)
    then show ?thesis
      using Parsed by (simp add: ws_on_message_def ws_try_def ws_catch_no_log)
  next
    case missing
    then show ?thesis
      using Parsed by (simp add: ws_on_message_def ws_try_def)
  next
    case (falsy msgs)
    then show ?thesis
      using Parsed by (simp add: ws_on_message_def ws_try_def)
  next
    case (streams msgs)
    then show ?thesis
      using Parsed by (simp add: ws_on_message_streaming ws_tail_close_only_logs)
  qed
qed

text \<open>
  C3, as the code has it. Neither relay loop checks whether the peer is gone. On the socket a
  close during the loop runs the listener, which logs it, and changes nothing else: without
  the log line the actions are those of a session whose peer stays. On both entry points the
  loop pulls until the generator has finished or failed, one pull for each fragment and the
  last one; the generator is drained, never cancelled.
\<close>

theorem relay_ignores_peer_close:
  "filter (\<lambda>a. a \<noteq> ConsoleLog ''WebSocket connection closed'')
     (ws_on_message e wuid frame closeAt) = ws_on_message e wuid frame None \<and>
   (destructure_messages payload = Inr (Some msgs) \<and> truthy msgs \<longrightarrow>
      pulls (ws_on_message e wuid (Parsed payload) closeAt) = drained (chat_stream e wuid msgs)) \<and>
   (request_jwtVerify e req = Inr user \<and> userId user = Some uid \<and> uid \<noteq> [] \<and>
    validate e (body req) = Inr data \<and> requested_stream data \<longrightarrow>
      pulls (post_chat e req) = drained (chat_stream e uid (JArr (requested_messages data))))"
proof (intro conjI impI)
  show "filter (\<lambda>a. a \<noteq> ConsoleLog ''WebSocket connection closed'')
     (ws_on_message e wuid frame closeAt) = ws_on_message e wuid frame None"
    by (rule ws_on_message_close_only_logs)
next
  assume h: "destructure_messages payload = Inr (Some msgs) \<and> truthy msgs"
  have "pulls (ws_on_message e wuid (Parsed payload) closeAt) =
      pulls (ws_tail closeAt (chat_stream e wuid msgs))"
    using h ws_on_message_streaming [of payload msgs e wuid closeAt] by (simp add: pulls_def)
  then show "pulls (ws_on_message e wuid (Parsed payload) closeAt) =
      drained (chat_stream e wuid msgs)"
    by (simp add: ws_tail_pulls)
next
  assume h: "request_jwtVerify e req = Inr user \<and> userId user = Some uid \<and> uid \<noteq> [] \<and>
    validate e (body req) = Inr data \<and> requested_stream data"
  have "pulls (post_chat e req) =
      pulls (stream_tail (chat_stream e uid (JArr (requested_messages data))))"
    using h post_chat_streaming [of e req user uid data] by (simp add: pulls_def)
  then show "pulls (post_chat e req) =
      drained (chat_stream e uid (JArr (requested_messages data)))"
    by (simp add: stream_tail_pulls)
qed

theorem relay_ignores_peer_close_witness:
  "destructure_messages (JObj [(''messages'', hi)]) = Inr (Some hi) \<and> truthy hi \<and>
   pulls (ws_on_message (demo_env hi_there None) ''u1''
     (Parsed (JObj [(''messages'', hi)])) (Some 1)) = 4 \<and>
   request_jwtVerify (demo_env hi_there None) (demo_request streaming_body) = Inr u1 \<and>
   userId u1 = Some ''u1'' \<and>
   validate (demo_env hi_there None) (body (demo_request streaming_body)) =
     Inr \<lparr>messages = Some [JObj [(''role'', JStr ''user''), (''content'', JStr ''hi'')]],
          stream = Some True\<rparr> \<and>
   pulls (post_chat (demo_env hi_there None) (demo_request streaming_body)) = 4"
  using relay_ignores_peer_close
    [where e = "demo_env hi_there None" and req = "demo_request streaming_body" and user = u1
       and uid = "''u1''" and wuid = "''u1''" and closeAt = "Some 1"
       and data = "\<lparr>messages = Some [JObj [(''role'', JStr ''user''), (''content'', JStr ''hi'')]],
          stream = Some True\<rparr>"
       and payload = "JObj [(''messages'', hi)]" and msgs = hi]
  by (simp add: run_defs observe_defs demo_defs)

text \<open>
  The peer closes the socket while the handler awaits its second pull: the listener logs the
  close, and the loop pulls twice more and sends the second fragment and the done frame.
\<close>

theorem peer_close_counterexample:
  "ws_connection (demo_env hi_there None) (Some ''good'')
     [OnMessage (Parsed (JObj [(''messages'', hi)])) (Some 1)] =
     [LlmChat ''u1'' hi True,
      GenNext, WsSend (JObj [(''type'', JStr ''chunk''), (''content'', JStr ''Hi'')]),
      GenNext, ConsoleLog ''WebSocket connection closed'',
      GenNext, WsSend (JObj [(''type'', JStr ''chunk''), (''content'', JStr '' there'')]),
      GenNext, WsSend (JObj [(''type'', JStr ''done'')])] \<and>
   \<not> stops_at_close (ws_connection (demo_env hi_there None) (Some ''good'')
     [OnMessage (Parsed (JObj [(''messages'', hi)])) (Some 1)])"
  by (simp add: run_defs observe_defs demo_defs stops_at_close_def after_close_def)

subsection \<open>Terminal events\<close>

lemma content_events_not_terminal:
  "filter sse_terminal (map (\<lambda>c. SseData (JObj [(''content'', JStr c)])) cs) = []"
  by (induction cs) (simp_all add: error_tagged_def)

lemma chunk_frames_not_terminal:
  "filter ws_terminal (map (\<lambda>c. JObj [(''type'', JStr ''chunk''), (''content'', JStr c)]) cs) = []"
  by (induction cs) (simp_all add: ws_terminal_def error_tagged_def)

lemma stream_tail_events:
  "sse_events (stream_tail r) =
     map (\<lambda>c. SseData (JObj [(''content'', JStr c)])) (filter (\<lambda>s. s \<noteq> []) (fragments r)) @
     [case upstream_failure r of
        None \<Rightarrow> SseDone
      | Some err \<Rightarrow> SseData (JObj [(''error'', JStr (in_band_text err))])]"
proof (cases r rule: stream_tail.cases)
  case (1 err)
  then show ?thesis by (simp add: sse_events_def)
next
  case (2 chunks)
  have "sse_events (stream_tail r) = sse_events (sse_relay chunks) @ [SseDone]"
    using 2 by (simp add: sse_events_def)
  then show ?thesis using 2 by (simp add: sse_relay_events)
next
  case (3 chunks err)
  have "sse_events (stream_tail r) =
          sse_events (sse_relay chunks) @ [SseData (JObj [(''error'', JStr (in_band_text err))])]"
    using 3 by (simp add: sse_events_def)
  then show ?thesis using 3 by (simp add: sse_relay_events)
qed

lemma stream_tail_no_response: "responses (stream_tail r) = []"
  using sse_relay_no_response
  by (cases r rule: stream_tail.cases) (simp_all add: responses_def)

lemma post_chat_streaming_events:
  assumes "request_jwtVerify e req = Inr user" and "userId user = Some uid" and "uid \<noteq> []"
    and "validate e (body req) = Inr data" and "requested_stream data"
  shows "sse_events (post_chat e req) =
           sse_events (stream_tail (chat_stream e uid (JArr (requested_messages data))))"
    and "responses (post_chat e req) = []"
  using stream_tail_no_response
  by (simp_all add: post_chat_streaming [OF assms] sse_events_def responses_def)

lemma post_catch_uncommitted_observed:
  "sse_events (post_catch [] err) = []" "length (responses (post_catch [] err)) = 1"
  by (cases err; simp add: post_catch_uncommitted headersSent_def sse_events_def responses_def)+

lemma uncommitted_observed:
  assumes "\<not> headersSent (post_chat e req)"
  shows "sse_events (post_chat e req) = []" and "length (responses (post_chat e req)) = 1"
proof -
  have "sse_events (post_chat e req) = [] \<and> length (responses (post_chat e req)) = 1"
  proof (cases e req rule: post_chat_cases)
    case (rejected err)
    then show ?thesis by (simp add: post_chat_rejected sse_events_def responses_def)
  next
    case (anonymous user)
    then show ?thesis
      by (simp add: post_chat_no_userId [OF anonymous] sse_events_def responses_def)
  next
    case (invalid user uid err)
    have "sse_events (post_chat e req) = sse_events (post_catch [] err)"
      "responses (post_chat e req) = responses (post_catch [] err)"
      by (simp_all add: post_chat_invalid [OF invalid] sse_events_def responses_def)
    then show ?thesis by (simp add: post_catch_uncommitted_observed)
  next
    case (plain user uid data)
    show ?thesis
    proof (cases "chat_text e uid (JArr (requested_messages data))")
      case (Inl err)
      then have "sse_events (post_chat e req) = sse_events (post_catch [] err)"
        "responses (post_chat e req) = responses (post_catch [] err)"
        by (simp_all add: post_chat_plain [OF plain] sse_events_def responses_def)
      then show ?thesis by (simp add: post_catch_uncommitted_observed)
    next
      case (Inr response)
      then show ?thesis
        by (simp add: post_chat_plain [OF plain] sse_events_def responses_def)
    qed
  next
    case (streaming user uid data)
    with assms show ?thesis
      by (simp add: post_chat_streaming [OF streaming] headersSent_def)
  qed
  then show "sse_events (post_chat e req) = []" and "length (responses (post_chat e req)) = 1"
    by simp_all
qed

lemma ws_catch_with_message:
  "thrown_message err = Some m \<Longrightarrow> ws_catch err = [WsSend (JObj [(''error'', JStr m)])]"
  by (cases err rule: ws_catch.cases) simp_all

lemma ws_tail_frames:
  assumes "case upstream_failure r of None \<Rightarrow> True | Some err \<Rightarrow> thrown_message err \<noteq> None"
  shows "ws_frames (ws_tail closeAt r) =
     map (\<lambda>c. JObj [(''type'', JStr ''chunk''), (''content'', JStr c)])
       (filter (\<lambda>s. s \<noteq> []) (fragments r)) @
     [case upstream_failure r of
        None \<Rightarrow> JObj [(''type'', JStr ''done'')]
      | Some err \<Rightarrow> JObj [(''error'', JStr (the (thrown_message err)))]]"
proof (cases r rule: stream_tail.cases)
  case (1 err)
  with assms obtain m where "thrown_message err = Some m" by auto
  then show ?thesis using 1 by (simp add: ws_catch_with_message ws_frames_def)
next
  case (2 chunks)
  have "ws_frames (ws_tail closeAt r) =
          ws_frames (ws_relay closeAt chunks) @ [JObj [(''type'', JStr ''done'')]]"
    using 2 by (simp add: ws_frames_def)
  then show ?thesis using 2 by (simp add: ws_relay_frames)
next
  case (3 chunks err)
  with assms obtain m where m: "thrown_message err = Some m" by auto
  have "ws_frames (ws_tail closeAt r) =
          ws_frames (ws_relay closeAt chunks) @ [JObj [(''error'', JStr m)]]"
    using 3 m by (simp add: ws_frames_def ws_catch_with_message)
  then show ?thesis using 3 m by (simp add: ws_relay_frames)
qed

lemma ws_on_message_not_streaming:
  assumes "frame_messages frame = None"
  shows "\<exists>m. ws_on_message e uid frame closeAt = [WsSend (JObj [(''error'', JStr m)])]"
proof (cases frame)
  case (Malformed m)
  then show ?thesis by (simp add: ws_on_message_def ws_try_def)
next
  case (Parsed payload)
  show ?thesis
  proof (cases payload rule: ws_try_Parsed_cases)
    case (throws err)
    then show ?thesis
      using Parsed
      by (cases payload rule: destructure_messages.cases)
        (auto simp add: ws_on_message_def ws_try_def)
  next
    case missing
    then show ?thesis using Parsed by (simp add: ws_on_message_def ws_try_def)
  next
    case (falsy msgs)
    then show ?thesis using Parsed by (simp add: ws_on_message_def ws_try_def)
  next
    case (streams msgs)
    then show ?thesis using Parsed assms by simp
  qed
qed

lemma frame_messages_Some:
  "frame_messages frame = Some msgs \<Longrightarrow>
   \<exists>payload. frame = Parsed payload \<and> destructure_messages payload = Inr (Some msgs) \<and> truthy msgs"
  by (cases frame) (auto split: sum.splits option.splits if_splits)

text \<open>
  C4, as the code has it. A session that reaches the transport writes exactly one terminal
  event, and it is the last event written. On the push stream this is a request whose headers
  have been written: it writes the done sentinel or one error-tagged event, and no
  out-of-band response. A request whose headers are never written (rejected, invalid, or
  not streaming) writes no event at all and is answered by exactly one out-of-band response.
  On the socket every inbound frame is answered by exactly one terminal frame, the last one
  sent, when the frame does not reach the upstream, and when it does and the value the
  upstream throws, if any, has a \<^verbatim>\<open>message\<close>.
\<close>

theorem one_terminal_event_once_committed:
  "(headersSent (post_chat e req) \<longrightarrow>
      length (filter sse_terminal (sse_events (post_chat e req))) = 1 \<and>
      sse_terminal (last (sse_events (post_chat e req))) \<and>
      responses (post_chat e req) = []) \<and>
   (\<not> headersSent (post_chat e req) \<longrightarrow>
      sse_events (post_chat e req) = [] \<and> length (responses (post_chat e req)) = 1) \<and>
   ((case frame_messages frame of
       None \<Rightarrow> True
     | Some msgs \<Rightarrow>
         (case upstream_failure (chat_stream e wuid msgs) of
            None \<Rightarrow> True
          | Some err \<Rightarrow> thrown_message err \<noteq> None)) \<longrightarrow>
      length (filter ws_terminal (ws_frames (ws_on_message e wuid frame closeAt))) = 1 \<and>
      ws_terminal (last (ws_frames (ws_on_message e wuid frame closeAt))))"
proof (intro conjI impI)
  assume "headersSent (post_chat e req)"
  then obtain user uid data where s: "request_jwtVerify e req = Inr user"
    "userId user = Some uid" "uid \<noteq> []" "validate e (body req) = Inr data"
    "requested_stream data"
    using committed_only_streaming by blast
  let ?r = "chat_stream e uid (JArr (requested_messages data))"
  have ev: "sse_events (post_chat e req) =
      map (\<lambda>c. SseData (JObj [(''content'', JStr c)])) (filter (\<lambda>s. s \<noteq> []) (fragments ?r)) @
      [case upstream_failure ?r of
         None \<Rightarrow> SseDone
       | Some err \<Rightarrow> SseData (JObj [(''error'', JStr (in_band_text err))])]"
    by (simp add: post_chat_streaming_events(1) [OF s] stream_tail_events)
  have t: "sse_terminal (case upstream_failure ?r of
         None \<Rightarrow> SseDone
       | Some err \<Rightarrow> SseData (JObj [(''error'', JStr (in_band_text err))]))"
    by (simp add: error_tagged_def split: option.splits)
  show "length (filter sse_terminal (sse_events (post_chat e req))) = 1"
    using t by (simp add: ev content_events_not_terminal)
  show "sse_terminal (last (sse_events (post_chat e req)))"
    using t by (simp add: ev)
  show "responses (post_chat e req) = []"
    by (rule post_chat_streaming_events(2) [OF s])
next
  assume h: "\<not> headersSent (post_chat e req)"
  show "sse_events (post_chat e req) = []"
    by (rule uncommitted_observed(1) [OF h])
  show "length (responses (post_chat e req)) = 1"
    by (rule uncommitted_observed(2) [OF h])
next
  assume h: "case frame_messages frame of
       None \<Rightarrow> True
     | Some msgs \<Rightarrow>
         (case upstream_failure (chat_stream e wuid msgs) of
            None \<Rightarrow> True
          | Some err \<Rightarrow> thrown_message err \<noteq> None)"
  have "length (filter ws_terminal (ws_frames (ws_on_message e wuid frame closeAt))) = 1 \<and>
      ws_terminal (last (ws_frames (ws_on_message e wuid frame closeAt)))"
  proof (cases "frame_messages frame")
    case None
    then obtain m where
      "ws_on_message e wuid frame closeAt = [WsSend (JObj [(''error'', JStr m)])]"
      using ws_on_message_not_streaming by blast
    then show ?thesis by (simp add: ws_frames_def ws_terminal_def error_tagged_def)
  next
    case fm: (Some msgs)
    with h have ok: "case upstream_failure (chat_stream e wuid msgs) of
          None \<Rightarrow> True
        | Some err \<Rightarrow> thrown_message err \<noteq> None"
      by simp
    obtain payload where p: "frame = Parsed payload"
      "destructure_messages payload = Inr (Some msgs)" "truthy msgs"
      using frame_messages_Some [OF fm] by blast
    let ?r = "chat_stream e wuid msgs"
    have "ws_frames (ws_on_message e wuid frame closeAt) = ws_frames (ws_tail closeAt ?r)"
      by (simp add: p(1) ws_on_message_streaming [OF p(2,3)] ws_frames_def)
    then have fr: "ws_frames (ws_on_message e wuid frame closeAt) =
      map (\<lambda>c. JObj [(''type'', JStr ''chunk''), (''content'', JStr c)])
        (filter (\<lambda>s. s \<noteq> []) (fragments ?r)) @
      [case upstream_failure ?r of
         None \<Rightarrow> JObj [(''type'', JStr ''done'')]
       | Some err \<Rightarrow> JObj [(''error'', JStr (the (thrown_message err)))]]"
      by (simp add: ws_tail_frames [OF ok])
    have t: "ws_terminal (case upstream_failure ?r of
         None \<Rightarrow> JObj [(''type'', JStr ''done'')]
       | Some err \<Rightarrow> JObj [(''error'', JStr (the (thrown_message err)))])"
      by (simp add: ws_terminal_def error_tagged_def split: option.splits)
    show ?thesis
      using t by (simp add: fr chunk_frames_not_terminal)
  qed
  then show "length (filter ws_terminal (ws_frames (ws_on_message e wuid frame closeAt))) = 1"
    and "ws_terminal (last (ws_frames (ws_on_message e wuid frame closeAt)))"
    by simp_all
qed

theorem one_terminal_event_once_committed_witness:
  "headersSent (post_chat (demo_env hi_there (Some (JsError ''upstream down'')))
     (demo_request streaming_body)) \<and>
   filter sse_terminal (sse_events (post_chat (demo_env hi_there (Some (JsError ''upstream down'')))
     (demo_request streaming_body))) = [SseData (JObj [(''error'', JStr ''upstream down'')])] \<and>
   \<not> headersSent (post_chat (demo_env hi_there (Some (JsError ''upstream down'')))
     (demo_request (JObj [(''messages'', JArr [])]))) \<and>
   length (responses (post_chat (demo_env hi_there (Some (JsError ''upstream down'')))
     (demo_request (JObj [(''messages'', JArr [])])))) = 1 \<and>
   frame_messages (Parsed (JObj [(''messages'', hi)])) = Some hi \<and>
   thrown_message (JsError ''upstream down'') \<noteq> None \<and>
   filter ws_terminal (ws_frames (ws_on_message (demo_env hi_there (Some (JsError ''upstream down'')))
     ''u1'' (Parsed (JObj [(''messages'', hi)])) None)) =
     [JObj [(''error'', JStr ''upstream down'')]]"
  using
    one_terminal_event_once_committed
      [where e = "demo_env hi_there (Some (JsError ''upstream down''))"
         and req = "demo_request streaming_body" and wuid = "''u1''"
         and frame = "Parsed (JObj [(''messages'', hi)])" and closeAt = None]
    one_terminal_event_once_committed
      [where e = "demo_env hi_there (Some (JsError ''upstream down''))"
         and req = "demo_request (JObj [(''messages'', JArr [])])" and wuid = "''u1''"
         and frame = "Malformed ''Unexpected end of JSON input''" and closeAt = None]
  by (simp add: run_defs observe_defs demo_defs ws_terminal_def error_tagged_def)

text \<open>
  A valid request with streaming disabled is answered by one structured response and writes
  no terminal event; and a frame whose upstream throws a value that is no \<^verbatim>\<open>Error\<close>
  (here a string) is answered on the socket by the frame \<^verbatim>\<open>{}\<close>, which is neither the
  done frame nor error-tagged.
\<close>

theorem no_terminal_event_counterexample:
  "post_chat (demo_env hi_there None) (demo_request plain_body) =
     [LogDebug ''Chat request'', LogDebug ''Validated chat data'', LlmChat ''u1'' hi False,
      SuccessResponse
        (JObj [(''message'',
                JObj [(''role'', JStr ''assistant''), (''content'', JStr ''Hello'')])])] \<and>
   filter sse_terminal (sse_events (post_chat (demo_env hi_there None)
     (demo_request plain_body))) = [] \<and>
   ws_frames (ws_on_message (demo_env [] (Some (NonError None))) ''u1''
     (Parsed (JObj [(''messages'', hi)])) None) = [JObj []] \<and>
   filter ws_terminal (ws_frames (ws_on_message (demo_env [] (Some (NonError None))) ''u1''
     (Parsed (JObj [(''messages'', hi)])) None)) = []"
  by (simp add: run_defs observe_defs demo_defs ws_terminal_def error_tagged_def)

subsection \<open>Failure after the commit\<close>





subsection \<open>The response without streaming\<close>

lemma concat_nonempty: "concat (filter (\<lambda>s. s \<noteq> []) xs) = concat xs"
  by (induction xs) simp_all

text \<open>
  C6. A valid request with streaming disabled is answered by one structured response, and
  nothing is written on the stream. When \<^verbatim>\<open>llmService.chat\<close> in its non-streaming mode
  drains the generator, as the specification describes it, the text of the response is the
  concatenation, in order, of the non-empty fragments the generator produced.
\<close>

theorem plain_response_concatenates_fragments:
  assumes "request_jwtVerify e req = Inr user" and "userId user = Some uid" and "uid \<noteq> []"
    and "validate e (body req) = Inr data" and "\<not> requested_stream data"
    and "chat_text e uid (JArr (requested_messages data)) =
           drain (chat_stream e uid (JArr (requested_messages data)))"
    and "chat_stream e uid (JArr (requested_messages data)) = Inr (chunks, None)"
  shows "responses (post_chat e req) =
           [SuccessResponse
              (JObj [(''message'',
                      JObj [(''role'', JStr ''assistant''),
                            (''content'',
                             JStr (concat (filter (\<lambda>s. s \<noteq> []) (map chunk_content chunks))))])])] \<and>
         sse_events (post_chat e req) = [] \<and>
         \<not> headersSent (post_chat e req)"
proof -
  have "chat_text e uid (JArr (requested_messages data)) =
      Inr (concat (filter (\<lambda>s. s \<noteq> []) (map chunk_content chunks)))"
    using assms(6,7) by (simp add: drain_def concat_nonempty)
  then have "post_chat e req =
      [LogDebug ''Chat request'', LogDebug ''Validated chat data'',
       LlmChat uid (JArr (requested_messages data)) False,
       SuccessResponse
         (JObj [(''message'',
                 JObj [(''role'', JStr ''assistant''),
                       (''content'',
                        JStr (concat (filter (\<lambda>s. s \<noteq> []) (map chunk_content chunks))))])])]"
    by (simp add: post_chat_plain [OF assms(1-5)])
  then show ?thesis
    by (simp add: responses_def sse_events_def headersSent_def)
qed

theorem plain_response_concatenates_fragments_witness:
  "request_jwtVerify hello_env (demo_request plain_body) = Inr u1 \<and>
   userId u1 = Some ''u1'' \<and>
   validate hello_env (body (demo_request plain_body)) =
     Inr \<lparr>messages = Some [JObj [(''role'', JStr ''user''), (''content'', JStr ''hi'')]],
          stream = Some False\<rparr> \<and>
   chat_text hello_env ''u1'' hi = drain (chat_stream hello_env ''u1'' hi) \<and>
   chat_stream hello_env ''u1'' hi = Inr ([text_chunk ''Hel'', text_chunk ''lo''], None) \<and>
   responses (post_chat hello_env (demo_request plain_body)) =
     [SuccessResponse
        (JObj [(''message'',
                JObj [(''role'', JStr ''assistant''), (''content'', JStr ''Hello'')])])] \<and>
   sse_events (post_chat hello_env (demo_request plain_body)) = []"
  using plain_response_concatenates_fragments
    [where e = hello_env and req = "demo_request plain_body" and user = u1 and uid = "''u1''"
       and data = "\<lparr>messages = Some [JObj [(''role'', JStr ''user''), (''content'', JStr ''hi'')]],
          stream = Some False\<rparr>"
       and chunks = "[text_chunk ''Hel'', text_chunk ''lo'']"]
  by (simp add: run_defs observe_defs demo_defs hello_env_def drain_def)

subsection \<open>Messages on the socket\<close>

text \<open>
  On the push-stream entry point a body that \<^verbatim>\<open>validate\<close> rejects never reaches the
  upstream.
\<close>

lemma post_rejected_body_not_forwarded:
  assumes "request_jwtVerify e req = Inr user" and "userId user = Some uid" and "uid \<noteq> []"
    and "validate e (body req) = Inl err"
  shows "llm_calls (post_chat e req) = []"
  by (cases err)
    (simp_all add: post_chat_invalid [OF assms] post_catch_uncommitted headersSent_def
      llm_calls_def)

text \<open>
  C7. The socket entry point does not validate the messages: it only tests that the
  \<^verbatim>\<open>messages\<close> property is truthy, and an empty array is. A frame with an empty messages
  list is forwarded to the upstream, on any established connection.
\<close>

theorem socket_forwards_empty_messages:
  "ws_on_message e uid (Parsed (JObj [(''messages'', JArr [])])) closeAt =
     LlmChat uid (JArr []) True # ws_tail closeAt (chat_stream e uid (JArr [])) \<and>
   ws_connection (demo_env hi_there None) (Some ''good'')
     [OnMessage (Parsed (JObj [(''messages'', JArr [])])) None] =
     [LlmChat ''u1'' (JArr []) True,
      GenNext, WsSend (JObj [(''type'', JStr ''chunk''), (''content'', JStr ''Hi'')]),
      GenNext,
      GenNext, WsSend (JObj [(''type'', JStr ''chunk''), (''content'', JStr '' there'')]),
      GenNext, WsSend (JObj [(''type'', JStr ''done'')])]"
proof
  show "ws_on_message e uid (Parsed (JObj [(''messages'', JArr [])])) closeAt =
     LlmChat uid (JArr []) True # ws_tail closeAt (chat_stream e uid (JArr []))"
    by (rule ws_on_message_streaming) simp_all
  show "ws_connection (demo_env hi_there None) (Some ''good'')
     [OnMessage (Parsed (JObj [(''messages'', JArr [])])) None] =
     [LlmChat ''u1'' (JArr []) True,
      GenNext, WsSend (JObj [(''type'', JStr ''chunk''), (''content'', JStr ''Hi'')]),
      GenNext,
      GenNext, WsSend (JObj [(''type'', JStr ''chunk''), (''content'', JStr '' there'')]),
      GenNext, WsSend (JObj [(''type'', JStr ''done'')])]"
    by (simp add: run_defs demo_defs)
qed

subsection \<open>Credentials on the socket\<close>

lemma ws_connection_established:
  assumes "t \<noteq> []" and "jwt_verify e t = Inr decoded" and "userId decoded = Some uid"
    and "uid \<noteq> []"
  shows "ws_connection e (Some t) events = concat (map (ws_on_event e uid) events)"
  using assms by (simp add: ws_connection_def ws_establish_def)

text \<open>The three ways the establishment of a connection fails, and the one way it succeeds.\<close>

lemma ws_establish_cases:
  obtains
    (missing) "token = None \<or> token = Some []"
  | (unverified) t err where "token = Some t" and "t \<noteq> []" and "jwt_verify e t = Inl err"
  | (anonymous) t decoded where "token = Some t" and "t \<noteq> []"
      and "jwt_verify e t = Inr decoded" and "userId decoded = None \<or> userId decoded = Some []"
  | (established) t decoded uid where "token = Some t" and "t \<noteq> []"
      and "jwt_verify e t = Inr decoded" and "userId decoded = Some uid" and "uid \<noteq> []"
proof (cases token)
  case None
  then show ?thesis by (intro missing) simp
next
  case (Some t)
  show ?thesis
  proof (cases "t = []")
    case True
    with Some show ?thesis by (intro missing) simp
  next
    case False
    show ?thesis
    proof (cases "jwt_verify e t")
      case (Inl err)
      with Some False show ?thesis by (intro unverified)
    next
      case (Inr decoded)
      show ?thesis
      proof (cases "userId decoded")
        case None
        with Some False Inr show ?thesis by (intro anonymous [of t decoded]) simp_all
      next
        case uid: (Some uid)
        with Some False Inr show ?thesis
          by (cases "uid = []") (auto intro: anonymous [of t decoded] established)
      qed
    qed
  qed
qed

lemma ws_relay_no_close: "filter is_policy_close (ws_relay closeAt chunks) = []"
  by (induction chunks arbitrary: closeAt) (simp_all add: on_close_def)

lemma ws_catch_no_close: "filter is_policy_close (ws_catch err) = []"
  by (cases err rule: ws_catch.cases) simp_all

lemma ws_tail_no_close: "filter is_policy_close (ws_tail closeAt r) = []"
  by (cases r rule: stream_tail.cases) (simp_all add: ws_relay_no_close ws_catch_no_close)

lemma ws_on_message_no_close: "filter is_policy_close (ws_on_message e uid frame closeAt) = []"
proof (cases "frame_messages frame")
  case None
  then obtain m where
    "ws_on_message e uid frame closeAt = [WsSend (JObj [(''error'', JStr m)])]"
    using ws_on_message_not_streaming by blast
  then show ?thesis by simp
next
  case (Some msgs)
  then obtain payload where p: "frame = Parsed payload"
    "destructure_messages payload = Inr (Some msgs)" "truthy msgs"
    using frame_messages_Some by blast
  show ?thesis
    by (simp add: p(1) ws_on_message_streaming [OF p(2,3)] ws_tail_no_close)
qed

lemma ws_events_no_close:
  "filter is_policy_close (concat (map (ws_on_event e uid) events)) = []"
proof (induction events)
  case Nil
  then show ?case by simp
next
  case (Cons ev events)
  then show ?case
    by (cases ev) (simp_all add: ws_on_message_no_close on_close_def)
qed

lemma established_not_rejected:
  assumes "t \<noteq> []" and "jwt_verify e t = Inr decoded" and "userId decoded = Some uid"
    and "uid \<noteq> []"
  shows "\<not> ws_rejects e (Some t) events"
  using ws_events_no_close [of e uid events]
  by (simp add: ws_rejects_def ws_connection_established [OF assms] list_ex_iff
      filter_empty_conv)

text \<open>
  C8. A connection without a valid credential is closed with code 1008 and nothing else
  happens on it: whatever frames the peer sends, no frame is answered and the upstream is
  never called. This holds when the token is missing or empty, when its verification
  fails, and when the verified payload has no \<^verbatim>\<open>userId\<close>.
\<close>

theorem invalid_credential_closes_socket:
  "(token = None \<or> token = Some [] \<longrightarrow>
      ws_connection e token events = [WsClose 1008 ''Missing authentication token'']) \<and>
   (token = Some t \<and> t \<noteq> [] \<and> jwt_verify e t = Inl err \<longrightarrow>
      ws_connection e token events = [WsClose 1008 ''Invalid or expired token'']) \<and>
   (token = Some t \<and> t \<noteq> [] \<and> jwt_verify e t = Inr decoded \<and>
    (userId decoded = None \<or> userId decoded = Some []) \<longrightarrow>
      ws_connection e token events = [WsClose 1008 ''Invalid token payload'']) \<and>
   (ws_rejects e token events \<longrightarrow>
      llm_calls (ws_connection e token events) = [] \<and>
      ws_frames (ws_connection e token events) = [] \<and>
      length (ws_connection e token events) = 1)"
proof (intro conjI impI)
  assume "token = None \<or> token = Some []"
  then show "ws_connection e token events = [WsClose 1008 ''Missing authentication token'']"
    by (auto simp add: ws_connection_def ws_establish_def)
next
  assume "token = Some t \<and> t \<noteq> [] \<and> jwt_verify e t = Inl err"
  then show "ws_connection e token events = [WsClose 1008 ''Invalid or expired token'']"
    by (simp add: ws_connection_def ws_establish_def)
next
  assume "token = Some t \<and> t \<noteq> [] \<and> jwt_verify e t = Inr decoded \<and>
    (userId decoded = None \<or> userId decoded = Some [])"
  then show "ws_connection e token events = [WsClose 1008 ''Invalid token payload'']"
    by (auto simp add: ws_connection_def ws_establish_def)
next
  assume r: "ws_rejects e token events"
  have "llm_calls (ws_connection e token events) = [] \<and>
      ws_frames (ws_connection e token events) = [] \<and>
      length (ws_connection e token events) = 1"
  proof (cases rule: ws_establish_cases [where token = token and e = e])
    case missing
    then show ?thesis
      by (auto simp add: ws_connection_def ws_establish_def llm_calls_def ws_frames_def)
  next
    case (unverified t err)
    then show ?thesis
      by (simp add: ws_connection_def ws_establish_def llm_calls_def ws_frames_def)
  next
    case (anonymous t decoded)
    then show ?thesis
      by (auto simp add: ws_connection_def ws_establish_def llm_calls_def ws_frames_def)
  next
    case (established t decoded uid)
    with r established_not_rejected [OF established(2-5)] show ?thesis
      by simp
  qed
  then show "llm_calls (ws_connection e token events) = []"
    and "ws_frames (ws_connection e token events) = []"
    and "length (ws_connection e token events) = 1"
    by simp_all
qed

theorem invalid_credential_closes_socket_witness:
  "ws_connection (demo_env hi_there None) None
     [OnMessage (Parsed (JObj [(''messages'', hi)])) None] =
     [WsClose 1008 ''Missing authentication token''] \<and>
   jwt_verify (demo_env hi_there None) ''expired'' = Inl (JsError ''jwt malformed'') \<and>
   ws_connection (demo_env hi_there None) (Some ''expired'')
     [OnMessage (Parsed (JObj [(''messages'', hi)])) None] =
     [WsClose 1008 ''Invalid or expired token''] \<and>
   jwt_verify (demo_env hi_there None) ''anon'' = Inr \<lparr>userId = None, email = None\<rparr> \<and>
   ws_connection (demo_env hi_there None) (Some ''anon'')
     [OnMessage (Parsed (JObj [(''messages'', hi)])) None] =
     [WsClose 1008 ''Invalid token payload''] \<and>
   ws_rejects (demo_env hi_there None) (Some ''anon'')
     [OnMessage (Parsed (JObj [(''messages'', hi)])) None] \<and>
   llm_calls (ws_connection (demo_env hi_there None) (Some ''anon'')
     [OnMessage (Parsed (JObj [(''messages'', hi)])) None]) = []"
  using
    invalid_credential_closes_socket
      [where e = "demo_env hi_there None" and token = None
         and events = "[OnMessage (Parsed (JObj [(''messages'', hi)])) None]"]
    invalid_credential_closes_socket
      [where e = "demo_env hi_there None" and token = "Some ''expired''" and t = "''expired''"
         and err = "JsError ''jwt malformed''"
         and events = "[OnMessage (Parsed (JObj [(''messages'', hi)])) None]"]
    invalid_credential_closes_socket
      [where e = "demo_env hi_there None" and token = "Some ''anon''" and t = "''anon''"
         and decoded = "\<lparr>userId = None, email = None\<rparr>"
         and events = "[OnMessage (Parsed (JObj [(''messages'', hi)])) None]"]
  by (simp add: run_defs observe_defs demo_defs ws_rejects_def)

subsection \<open>The two entry points check alike\<close>

lemma sse_relay_no_unauthorized: "filter is_unauthorized (sse_relay chunks) = []"
  by (induction chunks) simp_all

lemma stream_tail_no_unauthorized: "filter is_unauthorized (stream_tail r) = []"
  by (cases r rule: stream_tail.cases) (simp_all add: sse_relay_no_unauthorized)

lemma post_catch_no_unauthorized: "filter is_unauthorized (post_catch [] err) = []"
  by (cases err) (simp_all add: post_catch_uncommitted headersSent_def)

lemma accepted_not_rejected:
  assumes "request_jwtVerify e req = Inr user" and "userId user = Some uid" and "uid \<noteq> []"
  shows "\<not> post_rejects e req"
proof -
  have "filter is_unauthorized (post_chat e req) = []"
  proof (cases "validate e (body req)")
    case (Inl err)
    then show ?thesis
      by (simp add: post_chat_invalid [OF assms] post_catch_no_unauthorized)
  next
    case (Inr data)
    show ?thesis
    proof (cases "requested_stream data")
      case True
      then show ?thesis
        by (simp add: post_chat_streaming [OF assms Inr] stream_tail_no_unauthorized)
    next
      case False
      then show ?thesis
        by (simp add: post_chat_plain [OF assms Inr] post_catch_no_unauthorized
            split: sum.splits)
    qed
  qed
  then show ?thesis
    by (simp add: post_rejects_def list_ex_iff filter_empty_conv)
qed

text \<open>
  C9. A credential is accepted at one entry point exactly when it is accepted at the other.
  The push-stream entry point rejects with the 401 helper, the socket entry point with the
  close 1008. Both hand the credential to the verifier of the JWT plugin and both then
  require a non-empty \<^verbatim>\<open>userId\<close> in the payload. The socket entry point rejects the
  empty credential without calling the verifier; the verifier rejects it as well.
\<close>

theorem same_verification_at_both_entry_points:
  assumes "authorization req = Some c" and "c \<noteq> [] \<or> isl (jwt_verify e c)"
  shows "post_rejects e req = ws_rejects e (Some c) events"
proof (cases rule: ws_establish_cases [where token = "Some c" and e = e])
  case missing
  then have c: "c = []" by simp
  with assms(2) obtain err where "jwt_verify e c = Inl err"
    by (cases "jwt_verify e c") auto
  then have "post_rejects e req"
    using assms(1) by (simp add: post_rejects_def post_chat_rejected request_jwtVerify_def)
  moreover have "ws_rejects e (Some c) events"
    using c by (simp add: ws_rejects_def ws_connection_def ws_establish_def)
  ultimately show ?thesis by simp
next
  case (unverified t err)
  then have "post_rejects e req"
    using assms(1) by (simp add: post_rejects_def post_chat_rejected request_jwtVerify_def)
  moreover have "ws_rejects e (Some c) events"
    using unverified by (simp add: ws_rejects_def ws_connection_def ws_establish_def)
  ultimately show ?thesis by simp
next
  case (anonymous t decoded)
  then have v: "request_jwtVerify e req = Inr decoded"
    using assms(1) by (simp add: request_jwtVerify_def)
  have "post_rejects e req"
    using anonymous(4) by (simp add: post_rejects_def post_chat_no_userId [OF v])
  moreover have "ws_rejects e (Some c) events"
    using anonymous by (auto simp add: ws_rejects_def ws_connection_def ws_establish_def)
  ultimately show ?thesis by simp
next
  case (established t decoded uid)
  then have v: "request_jwtVerify e req = Inr decoded"
    using assms(1) by (simp add: request_jwtVerify_def)
  have "\<not> post_rejects e req"
    using accepted_not_rejected [OF v established(4,5)] .
  moreover have "\<not> ws_rejects e (Some c) events"
    using established established_not_rejected [of t e decoded uid events] by simp
  ultimately show ?thesis by simp
qed

theorem same_verification_at_both_entry_points_witness:
  "authorization (demo_request streaming_body) = Some ''good'' \<and>
   \<not> post_rejects (demo_env hi_there None) (demo_request streaming_body) \<and>
   \<not> ws_rejects (demo_env hi_there None) (Some ''good'')
     [OnMessage (Parsed (JObj [(''messages'', hi)])) None] \<and>
   authorization ((demo_request streaming_body)\<lparr>authorization := Some ''expired''\<rparr>) =
     Some ''expired'' \<and>
   post_rejects (demo_env hi_there None)
     ((demo_request streaming_body)\<lparr>authorization := Some ''expired''\<rparr>) \<and>
   ws_rejects (demo_env hi_there None) (Some ''expired'')
     [OnMessage (Parsed (JObj [(''messages'', hi)])) None]"
  using
    same_verification_at_both_entry_points
      [where e = "demo_env hi_there None" and req = "demo_request streaming_body"
         and c = "''good''" and events = "[OnMessage (Parsed (JObj [(''messages'', hi)])) None]"]
    same_verification_at_both_entry_points
      [where e = "demo_env hi_there None"
         and req = "(demo_request streaming_body)\<lparr>authorization := Some ''expired''\<rparr>"
         and c = "''expired''" and events = "[OnMessage (Parsed (JObj [(''messages'', hi)])) None]"]
  by (simp add: run_defs observe_defs demo_defs ws_rejects_def post_rejects_def)

subsection \<open>The identity passed upstream\<close>

lemma ws_relay_no_call: "llm_calls (ws_relay closeAt chunks) = []"
  by (induction chunks arbitrary: closeAt) (simp_all add: llm_calls_def on_close_def)

lemma ws_catch_no_call: "llm_calls (ws_catch err) = []"
  by (cases err rule: ws_catch.cases) (simp_all add: llm_calls_def)

lemma ws_tail_no_call: "llm_calls (ws_tail closeAt r) = []"
proof (cases r rule: stream_tail.cases)
  case (1 err)
  then show ?thesis by (simp add: ws_catch_no_call)
next
  case (2 chunks)
  have "llm_calls (ws_tail closeAt r) = llm_calls (ws_relay closeAt chunks)"
    using 2 by (simp add: llm_calls_def)
  then show ?thesis by (simp add: ws_relay_no_call)
next
  case (3 chunks err)
  have "llm_calls (ws_tail closeAt r) =
      llm_calls (ws_relay closeAt chunks) @ llm_calls (ws_catch err)"
    using 3 by (simp add: llm_calls_def)
  then show ?thesis by (simp add: ws_relay_no_call ws_catch_no_call)
qed

lemma ws_on_message_calls:
  "llm_calls (ws_on_message e uid frame closeAt) =
     (case frame_messages frame of None \<Rightarrow> [] | Some msgs \<Rightarrow> [(uid, msgs)])"
proof (cases "frame_messages frame")
  case None
  then obtain m where
    "ws_on_message e uid frame closeAt = [WsSend (JObj [(''error'', JStr m)])]"
    using ws_on_message_not_streaming by blast
  then show ?thesis using None by (simp add: llm_calls_def)
next
  case (Some msgs)
  then obtain payload where p: "frame = Parsed payload"
    "destructure_messages payload = Inr (Some msgs)" "truthy msgs"
    using frame_messages_Some by blast
  have "llm_calls (ws_on_message e uid frame closeAt) =
      (uid, msgs) # llm_calls (ws_tail closeAt (chat_stream e uid msgs))"
    by (simp add: p(1) ws_on_message_streaming [OF p(2,3)] llm_calls_def)
  then show ?thesis using Some by (simp add: ws_tail_no_call)
qed

lemma ws_events_calls:
  "(u, m) \<in> set (llm_calls (concat (map (ws_on_event e uid) events))) \<Longrightarrow> u = uid"
proof (induction events)
  case Nil
  then show ?case by (simp add: llm_calls_def)
next
  case (Cons ev events)
  have split: "llm_calls (concat (map (ws_on_event e uid) (ev # events))) =
      llm_calls (ws_on_event e uid ev) @ llm_calls (concat (map (ws_on_event e uid) events))"
    by (simp add: llm_calls_def)
  show ?case
  proof (cases "(u, m) \<in> set (llm_calls (ws_on_event e uid ev))")
    case True
    show ?thesis
    proof (cases ev)
      case (OnMessage frame closeAt)
      with True show ?thesis
        by (simp add: ws_on_message_calls split: option.splits)
    next
      case OnClose
      with True show ?thesis
        by (simp add: on_close_def llm_calls_def)
    qed
  next
    case False
    with Cons.prems split have "(u, m) \<in> set (llm_calls (concat (map (ws_on_event e uid) events)))"
      by simp
    then show ?thesis by (rule Cons.IH)
  qed
qed

lemma ws_call_identity:
  assumes "(u, m) \<in> set (llm_calls (ws_connection e token events))"
  shows "\<exists>t decoded. token = Some t \<and> jwt_verify e t = Inr decoded \<and> userId decoded = Some u"
proof (cases rule: ws_establish_cases [where token = token and e = e])
  case missing
  with assms show ?thesis
    by (auto simp add: ws_connection_def ws_establish_def llm_calls_def)
next
  case (unverified t err)
  with assms show ?thesis
    by (simp add: ws_connection_def ws_establish_def llm_calls_def)
next
  case (anonymous t decoded)
  with assms show ?thesis
    by (auto simp add: ws_connection_def ws_establish_def llm_calls_def)
next
  case (established t decoded uid)
  with assms have "(u, m) \<in> set (llm_calls (concat (map (ws_on_event e uid) events)))"
    by (simp add: ws_connection_established [OF established(2-5)])
  then have "u = uid" by (rule ws_events_calls)
  with established show ?thesis by simp
qed

text \<open>
  C10. On the socket entry point every call of the upstream carries the \<^verbatim>\<open>userId\<close> of
  the payload of the token verified at establishment. Two connections with the same token
  call the upstream with the same identity whatever frames they receive: nothing in a frame
  changes it.
\<close>

theorem socket_identity_from_token_only:
  assumes "(uid, msgs) \<in> set (llm_calls (ws_connection e token events))"
    and "(uid', msgs') \<in> set (llm_calls (ws_connection e token events'))"
  shows "uid = uid' \<and>
         (\<exists>t decoded. token = Some t \<and> jwt_verify e t = Inr decoded \<and> userId decoded = Some uid)"
  using ws_call_identity [OF assms(1)] ws_call_identity [OF assms(2)] by auto

theorem socket_identity_from_token_only_witness:
  "llm_calls (ws_connection (demo_env hi_there None) (Some ''good'')
     [OnMessage (Parsed (JObj [(''messages'', hi), (''userId'', JStr ''mallory'')])) None]) =
     [(''u1'', hi)] \<and>
   llm_calls (ws_connection (demo_env hi_there None) (Some ''good'')
     [OnMessage (Parsed (JObj [(''userId'', JStr ''eve''), (''messages'', JStr ''x'')])) (Some 0),
      OnClose]) =
     [(''u1'', JStr ''x'')] \<and>
   jwt_verify (demo_env hi_there None) ''good'' = Inr u1 \<and> userId u1 = Some ''u1''"
  using socket_identity_from_token_only
    [where e = "demo_env hi_there None" and token = "Some ''good''"
       and events = "[OnMessage (Parsed (JObj [(''messages'', hi), (''userId'', JStr ''mallory'')])) None]"
       and events' = "[OnMessage (Parsed (JObj [(''userId'', JStr ''eve''), (''messages'', JStr ''x'')])) (Some 0),
      OnClose]"
       and uid = "''u1''" and msgs = hi and uid' = "''u1''" and msgs' = "JStr ''x''"]
  by (simp add: run_defs observe_defs demo_defs)

end
